theory Spec2Isabelle
  imports Complex_Main "HOL-Library.Char_ord" "HOL-Library.List_Lexorder" "HOL-Library.Product_Lexorder"
begin

section \<open>Exceptions and effectful computations\<close>

text \<open>
  The scraper talks to a Selenium session. Every call on the session may change the page
  and may raise; a Python \<^verbatim>\<open>try/except\<close> decides where a raised exception stops. A
  computation is therefore a function from the state of the session (the world \<open>'w\<close>, any
  type) to an outcome and the next state. All exceptions modelled here are subclasses of
  Python's \<^verbatim>\<open>Exception\<close>, so \<^verbatim>\<open>except Exception\<close> and a bare \<^verbatim>\<open>except\<close> catch each of them.
  \<^verbatim>\<open>print\<close> and \<^verbatim>\<open>time.sleep\<close> have no effect on any result and are left out.
\<close>

datatype exn =
    NoSuchElementException
  | TimeoutException
  | StaleElementReferenceException
  | JavascriptException
  | WebDriverException
  | ValueError
  | IndexError

type_synonym ('a, 'w) io = "'w \<Rightarrow> (exn + 'a) \<times> 'w"

definition io_return :: "'a \<Rightarrow> ('a, 'w) io" where
  "io_return x = (\<lambda>w. (Inr x, w))"

definition io_raise :: "exn \<Rightarrow> ('a, 'w) io" where
  "io_raise e = (\<lambda>w. (Inl e, w))"

definition io_bind :: "('a, 'w) io \<Rightarrow> ('a \<Rightarrow> ('b, 'w) io) \<Rightarrow> ('b, 'w) io" where
  "io_bind m f = (\<lambda>w. case m w of (Inl e, w') \<Rightarrow> (Inl e, w') | (Inr x, w') \<Rightarrow> f x w')"

text \<open>\<^verbatim>\<open>try: body  except Exception as e: handler\<close>\<close>

definition io_try :: "('a, 'w) io \<Rightarrow> (exn \<Rightarrow> ('a, 'w) io) \<Rightarrow> ('a, 'w) io" where
  "io_try body handler = (\<lambda>w. case body w of (Inl e, w') \<Rightarrow> handler e w' | (Inr x, w') \<Rightarrow> (Inr x, w'))"

text \<open>A list comprehension whose element expression calls the session.\<close>

fun io_map :: "('a \<Rightarrow> ('b, 'w) io) \<Rightarrow> 'a list \<Rightarrow> ('b list, 'w) io" where
  "io_map f [] = io_return []"
| "io_map f (x # xs) = io_bind (f x) (\<lambda>y. io_bind (io_map f xs) (\<lambda>ys. io_return (y # ys)))"

definition returns :: "(exn + 'a) \<times> 'w \<Rightarrow> bool" where
  "returns r = (case fst r of Inl e \<Rightarrow> False | Inr x \<Rightarrow> True)"

section \<open>The Selenium session\<close>

text \<open>
  The selectors are the string constants of the source, one constructor each. A session is
  a record of the calls the scraper makes on the driver and on element handles \<open>'e\<close>; its
  fields are arbitrary functions, so a theorem about every session covers every behaviour
  of the browser, including one that changes from call to call.
\<close>

datatype locator =
    ThumbHorizontalScrollBar   \<comment> \<open>By.ID jqxScrollThumbhorizontalScrollBarjqxgrid\<close>
  | GridColumnHeaderSpans      \<comment> \<open>#jqxgrid .jqx-grid-column-header span\<close>
  | GridContentRows            \<comment> \<open>#jqxgrid .jqx-grid-content div[role='row']\<close>
  | GridCells                  \<comment> \<open>div[role='gridcell']\<close>
  | JqxGrid                    \<comment> \<open>By.ID jqxgrid\<close>
  | OverlayCandidates          \<comment> \<open>div[role='dialog'], div[class*='modal'], div[class*='popup'], div[class*='overlay']\<close>
  | CloseButtonByText          \<comment> \<open>.//button[contains(text(), ...)] for the four close texts\<close>
  | CloseButtonByClass         \<comment> \<open>button.close, button.btn-close, button[class*='close'], button[class*='dismiss']\<close>
  | RemainingOverlays          \<comment> \<open>div[id^='gray'], div[id^='overlay'], div[role='dialog'], div[class*='overlay']\<close>
  | EmployeeTableRows          \<comment> \<open>table.historical_data_table tbody tr\<close>
  | TableCells                 \<comment> \<open>By.TAG_NAME td\<close>
  | SearchBox                  \<comment> \<open>//input[@class='js-typeahead' and @placeholder='Search over 200,000 charts...']\<close>
  | SearchBoxInteractive       \<comment> \<open>the same with placeholder 'Search over 200,000 interactive charts...'\<close>
  | TypeaheadResult            \<comment> \<open>.typeahead__result ul li a\<close>
  | MyTabsLists                \<comment> \<open>ul#myTabs\<close>
  | TabLink string             \<comment> \<open>//ul[@id='myTabs']//a[contains(text(), '...')]\<close>
  | NestedTabLink string       \<comment> \<open>.//a[contains(text(), '...')]\<close>
  | FrequencySelect            \<comment> \<open>select.frequency_select\<close>
  | SelectedOption             \<comment> \<open>option[selected]\<close>
  | Select2Selection           \<comment> \<open>span.select2-selection--single\<close>
  | QuarterlyItem              \<comment> \<open>//li[contains(text(),'Quarterly')]\<close>

datatype script =
    WindowScrollBy nat         \<comment> \<open>window.scrollBy(0, pixels);\<close>
  | RemoveOverlays             \<comment> \<open>the querySelectorAll(...).forEach(remove) script of remove_ad_overlay\<close>
  | ScrollIntoView             \<comment> \<open>arguments[0].scrollIntoView(true);\<close>

record ('e, 'w) webdriver =
  find_element :: "locator \<Rightarrow> ('e, 'w) io"
  find_elements :: "locator \<Rightarrow> ('e list, 'w) io"
  element_find_element :: "'e \<Rightarrow> locator \<Rightarrow> ('e, 'w) io"
  element_find_elements :: "'e \<Rightarrow> locator \<Rightarrow> ('e list, 'w) io"
  element_text :: "'e \<Rightarrow> (string, 'w) io"
  element_location_x :: "'e \<Rightarrow> (int, 'w) io"
  element_is_displayed :: "'e \<Rightarrow> (bool, 'w) io"
  element_click :: "'e \<Rightarrow> (unit, 'w) io"
  element_clear :: "'e \<Rightarrow> (unit, 'w) io"
  element_send_keys :: "'e \<Rightarrow> string \<Rightarrow> (unit, 'w) io"
  element_get_attribute :: "'e \<Rightarrow> string \<Rightarrow> (string option, 'w) io"
  execute_script :: "script \<Rightarrow> 'e list \<Rightarrow> (unit, 'w) io"
  \<comment> \<open>ActionChains(driver).click_and_hold(thumb).move_by_offset(amount, 0).release().perform()\<close>
  click_hold_move_release :: "'e \<Rightarrow> int \<Rightarrow> (unit, 'w) io"
  \<comment> \<open>WebDriverWait(driver, timeout).until(...): raises TimeoutException when the condition
      does not come true in time\<close>
  wait_presence_of_element :: "nat \<Rightarrow> locator \<Rightarrow> ('e, 'w) io"
  wait_presence_of_all_elements :: "nat \<Rightarrow> locator \<Rightarrow> ('e list, 'w) io"
  wait_element_clickable :: "nat \<Rightarrow> locator \<Rightarrow> ('e, 'w) io"
  wait_no_elements :: "nat \<Rightarrow> locator \<Rightarrow> (unit, 'w) io"

section \<open>Strings\<close>

text \<open>
  Strings are modelled over ASCII. \<^verbatim>\<open>str.strip()\<close> removes the characters that
  \<^verbatim>\<open>str.isspace\<close> accepts: tab to carriage return, the four separators 28 to 31, the blank.
\<close>

definition is_space :: "char \<Rightarrow> bool" where
  "is_space c = (let n = of_char c :: nat in (9 \<le> n \<and> n \<le> 13) \<or> (28 \<le> n \<and> n \<le> 32))"

definition strip :: "string \<Rightarrow> string" where
  "strip s = rev (dropWhile is_space (rev (dropWhile is_space s)))"

definition is_digit :: "char \<Rightarrow> bool" where
  "is_digit c = (c \<in> set ''0123456789'')"

text \<open>\<^verbatim>\<open>s.replace(c, "")\<close> for a one-character \<open>c\<close>.\<close>

definition remove_char :: "char \<Rightarrow> string \<Rightarrow> string" where
  "remove_char c s = filter (\<lambda>x. x \<noteq> c) s"

section \<open>ScrollAndTools.py: class Tools\<close>

text \<open>
  \<^verbatim>\<open>looks_like_date\<close>: \<^verbatim>\<open>bool(re.match(r'^\d{4}-\d{2}-\d{2}$', s))\<close>. In Python's \<^verbatim>\<open>re\<close> the
  anchor \<^verbatim>\<open>$\<close> also matches just before a newline that ends the string.
\<close>

definition date_shape :: "string \<Rightarrow> bool" where
  "date_shape s =
     list_all2 (\<lambda>p c. if p = CHR ''d'' then is_digit c else c = p) ''dddd-dd-dd'' s"

definition looks_like_date :: "string \<Rightarrow> bool" where
  "looks_like_date s =
     (date_shape s \<or> (s \<noteq> [] \<and> last s = CHR 0x0A \<and> date_shape (butlast s)))"

definition extract_grid_data ::
  "('e, 'w) webdriver \<Rightarrow> (string list \<times> string list list, 'w) io" where
  "extract_grid_data d =
     io_bind (find_elements d GridColumnHeaderSpans) (\<lambda>hs.
     io_bind (io_map (\<lambda>h. io_bind (element_text d h) (\<lambda>t. io_return (strip t))) hs) (\<lambda>headers.
     io_bind (find_elements d GridContentRows) (\<lambda>rs.
     io_bind (io_map (\<lambda>row.
        io_bind (element_find_elements d row GridCells) (\<lambda>cells.
        io_map (\<lambda>cell. io_bind (element_text d cell) (\<lambda>t. io_return (strip t))) cells)) rs) (\<lambda>rows.
     io_return (headers, rows)))))"

definition get_scrollbar_thumb_x :: "('e, 'w) webdriver \<Rightarrow> (int option, 'w) io" where
  "get_scrollbar_thumb_x d =
     io_try
       (io_bind (find_element d ThumbHorizontalScrollBar) (\<lambda>thumb.
        io_bind (element_location_x d thumb) (\<lambda>x.
        io_return (Some x))))
       (\<lambda>e. io_return None)"

definition drag_scrollbar :: "('e, 'w) webdriver \<Rightarrow> int \<Rightarrow> (bool, 'w) io" where
  "drag_scrollbar d scroll_amount =
     io_try
       (io_bind (find_element d ThumbHorizontalScrollBar) (\<lambda>thumb.
        io_bind (click_hold_move_release d thumb scroll_amount) (\<lambda>u.
        io_return True)))
       (\<lambda>e. io_return False)"

definition scroll_down :: "('e, 'w) webdriver \<Rightarrow> nat \<Rightarrow> (unit, 'w) io" where
  "scroll_down d pixels = execute_script d (WindowScrollBy pixels) []"

section \<open>AdRemoval.py: class Remove\<close>

text \<open>
  \<^verbatim>\<open>close_ad_overlay\<close>: the loop over the overlays found. For a displayed overlay the close
  button is looked up by text and clicked; when that raises, by class; when that raises
  too, the loop goes on. The first click that succeeds returns from the method. An
  exception of \<^verbatim>\<open>is_displayed\<close> leaves the loop for the outer handler.
\<close>

fun close_overlays :: "('e, 'w) webdriver \<Rightarrow> 'e list \<Rightarrow> (unit, 'w) io" where
  "close_overlays d [] = io_return ()"
| "close_overlays d (overlay # overlays) =
     io_bind (element_is_displayed d overlay) (\<lambda>shown.
       if shown then
         io_bind
           (io_try
              (io_bind (element_find_element d overlay CloseButtonByText) (\<lambda>close_btn.
               io_bind (element_click d close_btn) (\<lambda>u. io_return True)))
              (\<lambda>e1.
                 io_try
                   (io_bind (element_find_element d overlay CloseButtonByClass) (\<lambda>close_btn.
                    io_bind (element_click d close_btn) (\<lambda>u. io_return True)))
                   (\<lambda>e2. io_return False)))
           (\<lambda>closed. if closed then io_return () else close_overlays d overlays)
       else close_overlays d overlays)"

definition close_ad_overlay :: "('e, 'w) webdriver \<Rightarrow> (unit, 'w) io" where
  "close_ad_overlay d =
     io_try
       (io_bind (find_elements d OverlayCandidates) (\<lambda>overlays. close_overlays d overlays))
       (\<lambda>e. io_return ())"

text \<open>\<^verbatim>\<open>remove_ad_overlay\<close> has no \<^verbatim>\<open>try\<close>: it is the call of \<^verbatim>\<open>execute_script\<close>.\<close>

definition remove_ad_overlay :: "('e, 'w) webdriver \<Rightarrow> (unit, 'w) io" where
  "remove_ad_overlay d = execute_script d RemoveOverlays []"

definition wait_for_overlay_to_disappear :: "('e, 'w) webdriver \<Rightarrow> nat \<Rightarrow> (unit, 'w) io" where
  "wait_for_overlay_to_disappear d timeout =
     io_try (wait_no_elements d timeout RemainingOverlays) (\<lambda>e. io_return ())"

text \<open>\<^verbatim>\<open>Tools.ensure_ads_removed\<close>: the three methods in sequence, the default timeout 10.\<close>

definition ensure_ads_removed :: "('e, 'w) webdriver \<Rightarrow> (unit, 'w) io" where
  "ensure_ads_removed d =
     io_bind (close_ad_overlay d) (\<lambda>u1.
     io_bind (remove_ad_overlay d) (\<lambda>u2.
     wait_for_overlay_to_disappear d 10))"

text \<open>
  \<^verbatim>\<open>Tools.search\<close>, \<^verbatim>\<open>Tools.click\<close> and \<^verbatim>\<open>Tools.quartely\<close>: each body is one \<^verbatim>\<open>try\<close> whose
  handler prints. A \<^verbatim>\<open>return\<close> inside the body ends the method normally.
\<close>

definition search :: "('e, 'w) webdriver \<Rightarrow> string \<Rightarrow> (unit, 'w) io" where
  "search d name =
     io_try
       (io_bind
          (io_try (wait_presence_of_element d 10 SearchBox)
                  (\<lambda>e. wait_presence_of_element d 10 SearchBoxInteractive)) (\<lambda>search_box.
        io_bind (execute_script d ScrollIntoView [search_box]) (\<lambda>u1.
        io_bind (element_clear d search_box) (\<lambda>u2.
        io_bind (element_send_keys d search_box name) (\<lambda>u3.
        io_bind (wait_presence_of_element d 10 TypeaheadResult) (\<lambda>r.
        io_bind (wait_element_clickable d 10 TypeaheadResult) (\<lambda>first_result.
        element_click d first_result)))))))
       (\<lambda>e. io_return ())"

definition click :: "('e, 'w) webdriver \<Rightarrow> string \<Rightarrow> bool \<Rightarrow> (unit, 'w) io" where
  "click d click_value nested =
     io_try
       (io_bind (ensure_ads_removed d) (\<lambda>u0.
        io_bind
          (if nested then
             io_bind (wait_presence_of_all_elements d 10 MyTabsLists) (\<lambda>tabs.
               if length tabs < 2 then io_return None
               else io_bind (element_find_element d (tabs ! 1) (NestedTabLink click_value))
                      (\<lambda>tab. io_return (Some tab)))
           else
             io_bind (wait_presence_of_element d 10 (TabLink click_value))
               (\<lambda>tab. io_return (Some tab)))
          (\<lambda>found. case found of
             None \<Rightarrow> io_return ()
           | Some tab \<Rightarrow>
               io_bind (execute_script d ScrollIntoView [tab]) (\<lambda>u1.
               io_bind (wait_element_clickable d 10 (TabLink click_value)) (\<lambda>c.
               io_bind (element_click d tab) (\<lambda>u2.
               ensure_ads_removed d))))))
       (\<lambda>e. io_return ())"

definition contains :: "string \<Rightarrow> string \<Rightarrow> bool" where
  "contains sub s = list_ex (\<lambda>i. take (length sub) (drop i s) = sub) [0..<Suc (length s)]"

definition quartely :: "('e, 'w) webdriver \<Rightarrow> (unit, 'w) io" where
  "quartely d =
     io_try
       (io_bind (ensure_ads_removed d) (\<lambda>u0.
        io_bind (wait_presence_of_element d 10 FrequencySelect) (\<lambda>select_element.
        io_bind (element_find_element d select_element SelectedOption) (\<lambda>selected_option.
        io_bind (element_text d selected_option) (\<lambda>txt0.
        io_bind (element_get_attribute d selected_option ''value'') (\<lambda>selected_value.
          if selected_value = Some ''0'' \<or> contains ''Quarterly'' (strip txt0) then io_return ()
          else
            io_bind (wait_element_clickable d 10 Select2Selection) (\<lambda>dropdown.
            io_bind (element_click d dropdown) (\<lambda>u1.
            io_bind (wait_element_clickable d 10 QuarterlyItem) (\<lambda>quarterly_option.
            io_bind (element_click d quarterly_option) (\<lambda>u2.
            ensure_ads_removed d))))))))))
       (\<lambda>e. io_return ())"

text \<open>
  A \<^verbatim>\<open>Tools\<close> object, as \<^verbatim>\<open>Collect\<close> holds it in \<^verbatim>\<open>self.tools\<close>: the methods \<^verbatim>\<open>Collect\<close> calls.
  \<open>Tools d\<close> is the object \<^verbatim>\<open>Tools(driver)\<close> builds.
\<close>

record 'w tools =
  t_looks_like_date :: "string \<Rightarrow> bool"
  t_extract_grid_data :: "(string list \<times> string list list, 'w) io"
  t_get_scrollbar_thumb_x :: "(int option, 'w) io"
  t_drag_scrollbar :: "int \<Rightarrow> (bool, 'w) io"
  t_scroll_down :: "nat \<Rightarrow> (unit, 'w) io"
  t_search :: "string \<Rightarrow> (unit, 'w) io"
  t_click :: "string \<Rightarrow> bool \<Rightarrow> (unit, 'w) io"
  t_quartely :: "(unit, 'w) io"

definition Tools :: "('e, 'w) webdriver \<Rightarrow> 'w tools" where
  "Tools d =
     \<lparr> t_looks_like_date = looks_like_date,
       t_extract_grid_data = extract_grid_data d,
       t_get_scrollbar_thumb_x = get_scrollbar_thumb_x d,
       t_drag_scrollbar = drag_scrollbar d,
       t_scroll_down = scroll_down d,
       t_search = search d,
       t_click = click d,
       t_quartely = quartely d \<rparr>"

section \<open>RetriveData.py: class Collect\<close>

record ('e, 'w) collect =
  driver :: "('e, 'w) webdriver"
  tools :: "'w tools"
  charts :: "string list"

definition Collect :: "('e, 'w) webdriver \<Rightarrow> ('e, 'w) collect" where
  "Collect d =
     \<lparr> driver = d, tools = Tools d,
       charts = [''Financials'', ''Balance Sheet'', ''Cash Flow Statement'',
                 ''Key Financial Ratios'', ''Other Metrics''] \<rparr>"

subsection \<open>get_chart\<close>

definition max_scroll_attempts :: nat where
  "max_scroll_attempts = 50"

text \<open>\<^verbatim>\<open>xs.index(x)\<close> for an \<open>x\<close> that occurs in \<open>xs\<close>: the first position.\<close>

definition index_of :: "'a list \<Rightarrow> 'a \<Rightarrow> nat" where
  "index_of xs x = length (takeWhile (\<lambda>y. y \<noteq> x) xs)"

definition new_date_columns :: "(string \<Rightarrow> bool) \<Rightarrow> string list \<Rightarrow> string list \<Rightarrow> string list" where
  "new_date_columns is_date new_headers all_headers =
     filter (\<lambda>h. is_date h \<and> h \<notin> set all_headers) new_headers"

text \<open>
  The body of \<^verbatim>\<open>for i, row in enumerate(new_data)\<close>: \<^verbatim>\<open>all_data\<close> is updated in place, the
  number of headers is the one before \<^verbatim>\<open>all_headers.extend\<close>.
\<close>

definition extend_row ::
  "nat \<Rightarrow> nat list \<Rightarrow> string list list \<Rightarrow> nat \<times> string list \<Rightarrow> string list list" where
  "extend_row n_headers new_indices all_data ir =
     (case ir of (i, row) \<Rightarrow>
        let row_data = map (\<lambda>idx. if idx < length row then row ! idx else []) new_indices
        in if i < length all_data then all_data[i := all_data ! i @ row_data]
           else all_data @ [replicate n_headers [] @ row_data])"

text \<open>
  One pass through the body of the \<^verbatim>\<open>while\<close> loop. \<open>None\<close> is a \<^verbatim>\<open>break\<close>; \<open>Some\<close> carries
  \<^verbatim>\<open>all_headers\<close> and \<^verbatim>\<open>all_data\<close> as they are when the body reaches \<^verbatim>\<open>attempts += 1\<close>. The
  result of \<^verbatim>\<open>drag_scrollbar\<close> is bound to \<^verbatim>\<open>scrolled\<close> and not read again.
\<close>

definition scroll_body ::
  "'w tools \<Rightarrow> string list \<Rightarrow> string list list \<Rightarrow>
   ((string list \<times> string list list) option, 'w) io" where
  "scroll_body t all_headers all_data =
     io_bind (t_get_scrollbar_thumb_x t) (\<lambda>x_before.
       case x_before of
         None \<Rightarrow> io_return None
       | Some xb \<Rightarrow>
           io_bind (t_drag_scrollbar t 100) (\<lambda>scrolled.
           io_bind (t_get_scrollbar_thumb_x t) (\<lambda>x_after.
             case x_after of
               None \<Rightarrow> io_return None
             | Some xa \<Rightarrow>
                 if xa \<le> xb then io_return None
                 else
                   io_bind (t_extract_grid_data t) (\<lambda>scan.
                     case scan of (new_headers, new_data) \<Rightarrow>
                       let new_date_cols =
                             new_date_columns (t_looks_like_date t) new_headers all_headers
                       in if new_date_cols = [] then io_return None
                          else
                            let new_indices = map (index_of new_headers) new_date_cols;
                                all_data' = foldl (extend_row (length all_headers) new_indices)
                                              all_data (enumerate 0 new_data)
                            in io_return (Some (all_headers @ new_date_cols, all_data'))))))"

function scroll_loop ::
  "'w tools \<Rightarrow> nat \<Rightarrow> string list \<Rightarrow> string list list \<Rightarrow>
   (string list \<times> string list list, 'w) io" where
  "scroll_loop t attempts all_headers all_data w =
     (if attempts < max_scroll_attempts then
        (case scroll_body t all_headers all_data w of
           (Inl e, w') \<Rightarrow> (Inl e, w')
         | (Inr None, w') \<Rightarrow> (Inr (all_headers, all_data), w')
         | (Inr (Some (hs, rows)), w') \<Rightarrow> scroll_loop t (attempts + 1) hs rows w')
      else (Inr (all_headers, all_data), w))"
  by pat_completeness auto
termination
  by (relation "measure (\<lambda>(t, attempts, hs, rows, w). max_scroll_attempts - attempts)") auto

text \<open>
  The same loop with a count beside its outcome: the number of times the body of the
  \<^verbatim>\<open>while\<close> loop is entered on the run, a pass that breaks or raises included. The count
  is for the statements below, not a program variable; the outcome is that of
  \<open>scroll_loop\<close> (lemma \<open>scroll_loop_counted_outcome\<close>).
\<close>

function scroll_loop_counted ::
  "'w tools \<Rightarrow> nat \<Rightarrow> string list \<Rightarrow> string list list \<Rightarrow> 'w \<Rightarrow>
   ((exn + string list \<times> string list list) \<times> 'w) \<times> nat" where
  "scroll_loop_counted t attempts all_headers all_data w =
     (if attempts < max_scroll_attempts then
        (case scroll_body t all_headers all_data w of
           (Inl e, w') \<Rightarrow> ((Inl e, w'), 1)
         | (Inr None, w') \<Rightarrow> ((Inr (all_headers, all_data), w'), 1)
         | (Inr (Some (hs, rows)), w') \<Rightarrow>
             apsnd Suc (scroll_loop_counted t (attempts + 1) hs rows w'))
      else ((Inr (all_headers, all_data), w), 0))"
  by pat_completeness auto
termination
  by (relation "measure (\<lambda>(t, attempts, hs, rows, w). max_scroll_attempts - attempts)") auto

text \<open>The loop after the \<^verbatim>\<open>while\<close>: pad a short row with blanks, cut a long one.\<close>

definition normalize_row :: "nat \<Rightarrow> string list \<Rightarrow> string list" where
  "normalize_row n row =
     (if length row < n then row @ replicate (n - length row) []
      else if length row > n then take n row
      else row)"

text \<open>
  \<^verbatim>\<open>get_chart\<close>. The data frame it returns is the pair of \<^verbatim>\<open>all_headers\<close> and the rows.
\<close>

definition get_chart ::
  "('e, 'w) collect \<Rightarrow> (string list \<times> string list list, 'w) io" where
  "get_chart self =
     io_bind (t_scroll_down (tools self) 150) (\<lambda>u.
     io_bind (wait_presence_of_element (driver self) 20 JqxGrid) (\<lambda>grid.
     io_bind (t_extract_grid_data (tools self)) (\<lambda>scan.
       case scan of (all_headers0, all_data0) \<Rightarrow>
         io_bind (scroll_loop (tools self) 0 all_headers0 all_data0) (\<lambda>acc.
           case acc of (all_headers, all_data) \<Rightarrow>
             io_return (all_headers, map (normalize_row (length all_headers)) all_data)))))"

text \<open>
  Lines 299 to 361 of \<^verbatim>\<open>get_chart\<close>: everything before the rows are brought to one width.
  The result is \<^verbatim>\<open>all_headers\<close> and \<^verbatim>\<open>all_data\<close> as the \<^verbatim>\<open>while\<close> loop leaves them.
\<close>

definition get_chart_accumulated ::
  "('e, 'w) collect \<Rightarrow> (string list \<times> string list list, 'w) io" where
  "get_chart_accumulated self =
     io_bind (t_scroll_down (tools self) 150) (\<lambda>u.
     io_bind (wait_presence_of_element (driver self) 20 JqxGrid) (\<lambda>grid.
     io_bind (t_extract_grid_data (tools self)) (\<lambda>scan.
       case scan of (all_headers0, all_data0) \<Rightarrow>
         scroll_loop (tools self) 0 all_headers0 all_data0)))"

text \<open>
  \<^verbatim>\<open>get_chart\<close> with the count of the passes of its loop beside its outcome; no pass when
  the loop is not reached. The outcome is that of \<open>get_chart\<close> (lemma
  \<open>get_chart_counted_outcome\<close>).
\<close>

definition get_chart_counted ::
  "('e, 'w) collect \<Rightarrow> 'w \<Rightarrow> ((exn + string list \<times> string list list) \<times> 'w) \<times> nat" where
  "get_chart_counted self w =
     (case io_bind (t_scroll_down (tools self) 150) (\<lambda>u.
           io_bind (wait_presence_of_element (driver self) 20 JqxGrid) (\<lambda>grid.
           t_extract_grid_data (tools self))) w of
        (Inl e, w') \<Rightarrow> ((Inl e, w'), 0)
      | (Inr (all_headers0, all_data0), w') \<Rightarrow>
          (case scroll_loop_counted (tools self) 0 all_headers0 all_data0 w' of
             ((Inl e, w''), n) \<Rightarrow> ((Inl e, w''), n)
           | ((Inr (all_headers, all_data), w''), n) \<Rightarrow>
               ((Inr (all_headers, map (normalize_row (length all_headers)) all_data), w''), n)))"

subsection \<open>extract_employee_table_to_df\<close>

text \<open>
  \<^verbatim>\<open>int(s)\<close> on a string: blanks around it are dropped, a sign may come first, then decimal
  digits, between which single underscores may stand. Anything else raises \<^verbatim>\<open>ValueError\<close>.
\<close>

fun int_body_ok :: "string \<Rightarrow> bool" where
  "int_body_ok [] = False"
| "int_body_ok [c] = is_digit c"
| "int_body_ok (c # c' # cs) =
     (is_digit c \<and> (if c' = CHR ''_'' then int_body_ok cs else int_body_ok (c' # cs)))"

definition digit_value :: "char \<Rightarrow> nat" where
  "digit_value c = of_char c - 48"

definition digits_value :: "string \<Rightarrow> nat" where
  "digits_value s = foldl (\<lambda>a c. 10 * a + digit_value c) 0 (filter is_digit s)"

definition py_int :: "string \<Rightarrow> exn + int" where
  "py_int s =
     (let t = strip s;
          neg = (t \<noteq> [] \<and> hd t = CHR ''-'');
          body = (if t \<noteq> [] \<and> (hd t = CHR ''-'' \<or> hd t = CHR ''+'') then tl t else t)
      in if int_body_ok body
         then Inr (if neg then - int (digits_value body) else int (digits_value body))
         else Inl ValueError)"

definition io_lift :: "exn + 'a \<Rightarrow> ('a, 'w) io" where
  "io_lift r = (\<lambda>w. (r, w))"

text \<open>
  The loop over the table rows inside the \<^verbatim>\<open>try\<close>. \<open>data\<close> is the list of dictionaries, each
  a pair of its \<^verbatim>\<open>Year\<close> and its \<^verbatim>\<open>Employees\<close>.
\<close>

fun employee_rows ::
  "('e, 'w) webdriver \<Rightarrow> 'e list \<Rightarrow> (int \<times> int) list \<Rightarrow> ((int \<times> int) list, 'w) io" where
  "employee_rows d [] data = io_return data"
| "employee_rows d (row # rows) data =
     io_bind (element_find_elements d row TableCells) (\<lambda>cols.
       if length cols = 2 then
         io_bind (element_text d (cols ! 0)) (\<lambda>txt0.
         io_bind (element_text d (cols ! 1)) (\<lambda>txt1.
           let year = strip txt0;
               employees = remove_char CHR '','' (strip txt1)
           in io_bind (io_lift (py_int year)) (\<lambda>y.
              io_bind (if employees = ''N/A'' then io_return 0 else io_lift (py_int employees)) (\<lambda>n.
              employee_rows d rows (data @ [(y, n)])))))
       else employee_rows d rows data)"

text \<open>
  The data frame is the list of its rows; \<^verbatim>\<open>pd.DataFrame()\<close> is the empty list, and \<^verbatim>\<open>df.empty\<close>
  holds of it.
\<close>

definition extract_employee_table_to_df ::
  "('e, 'w) webdriver \<Rightarrow> ((int \<times> int) list, 'w) io" where
  "extract_employee_table_to_df d =
     io_try
       (io_bind (find_elements d EmployeeTableRows) (\<lambda>rows. employee_rows d rows []))
       (\<lambda>e. io_return [])"

subsection \<open>The pandas operations of collect_stock_info\<close>

text \<open>
  A cell of a data frame is a string, a Python \<^verbatim>\<open>int\<close>, a number of a numeric column, or
  missing. How pandas reads a number or a date from a string and prints a number is the
  library's business: these functions are parameters, for any type \<open>'n\<close> of numbers.
  \<open>Unparseable\<close> is a string on which \<^verbatim>\<open>pd.to_numeric\<close> raises (and which \<^verbatim>\<open>errors='coerce'\<close>
  turns into NaN), \<open>ParsedNaN\<close> one it reads as NaN.
\<close>

datatype 'n cell = Str string | PyInt int | Num 'n | NaN

datatype 'n parsed = Parsed 'n | ParsedNaN | Unparseable

record 'n pandas =
  to_numeric_str :: "string \<Rightarrow> 'n parsed"
  num_of_int :: "int \<Rightarrow> 'n"
  str_of_num :: "'n \<Rightarrow> string"
  to_datetime_str :: "string \<Rightarrow> (int \<times> int \<times> int) option"

text \<open>
  A data frame with a \<^verbatim>\<open>Date\<close> column: the names of the other columns, and the rows, each
  its \<^verbatim>\<open>Date\<close> and one cell for every other column. The \<^verbatim>\<open>Date\<close> is a string until
  \<^verbatim>\<open>pd.to_datetime\<close> has run on the column, then a date (year, month, day) or NaT (\<open>None\<close>).
\<close>

type_synonym ('k, 'n) frame = "string list \<times> ('k \<times> 'n cell list) list"

type_synonym date = "(int \<times> int \<times> int) option"

datatype 'n combined =
    Undated "(string, 'n) frame"
  | Dated "(date, 'n) frame"

definition frame_dates :: "('k, 'n) frame \<Rightarrow> 'k list" where
  "frame_dates f = map fst (snd f)"

fun show_nat :: "nat \<Rightarrow> string" where
  "show_nat n = (if n < 10 then [char_of (48 + n)] else show_nat (n div 10) @ [char_of (48 + n mod 10)])"

definition show_int :: "int \<Rightarrow> string" where
  "show_int i = (if i < 0 then CHR ''-'' # show_nat (nat (- i)) else show_nat (nat i))"

text \<open>\<^verbatim>\<open>str(x)\<close> of a cell, as \<^verbatim>\<open>astype(str)\<close> and an f-string compute it.\<close>

definition astype_str :: "'n pandas \<Rightarrow> 'n cell \<Rightarrow> string" where
  "astype_str pd c =
     (case c of Str s \<Rightarrow> s | PyInt i \<Rightarrow> show_int i | Num n \<Rightarrow> str_of_num pd n | NaN \<Rightarrow> ''nan'')"

text \<open>\<^verbatim>\<open>df.replace("-", 0)\<close>: a cell that is exactly the string \<^verbatim>\<open>-\<close> becomes the int 0.\<close>

definition replace_dash :: "'n cell \<Rightarrow> 'n cell" where
  "replace_dash c = (if c = Str ''-'' then PyInt 0 else c)"

text \<open>The lambda of \<^verbatim>\<open>df.applymap\<close>: the three \<^verbatim>\<open>replace\<close> calls on a string, any other cell as it is.\<close>

definition strip_symbols :: "'n cell \<Rightarrow> 'n cell" where
  "strip_symbols c =
     (case c of
        Str s \<Rightarrow> Str (remove_char CHR ''%'' (remove_char CHR '','' (remove_char CHR ''$'' s)))
      | _ \<Rightarrow> c)"

definition parse_cell :: "'n pandas \<Rightarrow> 'n cell \<Rightarrow> 'n parsed" where
  "parse_cell pd c =
     (case c of
        Str s \<Rightarrow> to_numeric_str pd s
      | PyInt i \<Rightarrow> Parsed (num_of_int pd i)
      | Num n \<Rightarrow> Parsed n
      | NaN \<Rightarrow> ParsedNaN)"

definition cell_of_parsed :: "'n parsed \<Rightarrow> 'n cell" where
  "cell_of_parsed p = (case p of Parsed n \<Rightarrow> Num n | _ \<Rightarrow> NaN)"

text \<open>
  \<^verbatim>\<open>pd.to_numeric(column, errors='ignore')\<close>: the column converted, or the column as it was
  when one of its cells does not parse.
\<close>

definition to_numeric_ignore :: "'n pandas \<Rightarrow> 'n cell list \<Rightarrow> 'n cell list" where
  "to_numeric_ignore pd col =
     (if list_ex (\<lambda>c. parse_cell pd c = Unparseable) col then col
      else map (\<lambda>c. cell_of_parsed (parse_cell pd c)) col)"

text \<open>Lines 212 to 216 on one column of the table \<^verbatim>\<open>get_chart\<close> returned.\<close>

definition clean_column :: "'n pandas \<Rightarrow> 'n cell list \<Rightarrow> 'n cell list" where
  "clean_column pd col = to_numeric_ignore pd (map strip_symbols (map replace_dash col))"

text \<open>
  Lines 243 to 249 on one cell of a column other than \<^verbatim>\<open>Date\<close>: \<^verbatim>\<open>replace("-", 0)\<close>,
  \<^verbatim>\<open>astype(str)\<close>, the regular expression \<^verbatim>\<open>[\$,%,]\<close> replaced by nothing,
  \<^verbatim>\<open>pd.to_numeric(errors="coerce")\<close> and \<^verbatim>\<open>fillna(0)\<close>.
\<close>

definition final_clean_cell :: "'n pandas \<Rightarrow> 'n cell \<Rightarrow> 'n cell" where
  "final_clean_cell pd c =
     (let s = astype_str pd (replace_dash c);
          s' = filter (\<lambda>x. x \<notin> {CHR ''$'', CHR '','', CHR ''%''}) s
      in case to_numeric_str pd s' of
           Parsed n \<Rightarrow> Num n
         | _ \<Rightarrow> Num (num_of_int pd 0))"

definition final_clean_column :: "'n pandas \<Rightarrow> 'n cell list \<Rightarrow> 'n cell list" where
  "final_clean_column pd col = map (final_clean_cell pd) col"

text \<open>
  Lines 212 to 224: the cleaning of every column of the wide table, the transposition
  (\<^verbatim>\<open>df.columns[0]\<close> raises on a table with no column), and the prefix on the column
  names. The rows of the wide table have the width of its header list. The frame is the
  one pandas builds when the first header stands once in the header list and no label of
  the first column is \<^verbatim>\<open>index\<close> or \<^verbatim>\<open>Date\<close>; tables of another kind are outside this model.
\<close>

definition to_lower :: "string \<Rightarrow> string" where
  "to_lower s =
     map (\<lambda>c. let n = of_char c :: nat in if 65 \<le> n \<and> n \<le> 90 then char_of (n + 32) else c) s"

function replace_sub :: "string \<Rightarrow> string \<Rightarrow> string \<Rightarrow> string" where
  "replace_sub old new s =
     (if s = [] \<or> old = [] then s
      else if take (length old) s = old then new @ replace_sub old new (drop (length old) s)
      else hd s # replace_sub old new (tl s))"
  by pat_completeness auto
termination
  by (relation "measure (\<lambda>(old, new, s). length s)") auto

definition chart_prefix :: "string \<Rightarrow> string" where
  "chart_prefix chart_title = replace_sub ''__'' ''_'' (replace_sub '' '' ''_'' (to_lower chart_title))"

definition panel_frame ::
  "'n pandas \<Rightarrow> string \<Rightarrow> string list \<times> string list list \<Rightarrow> exn + (string, 'n) frame" where
  "panel_frame pd chart_title df =
     (case df of (headers, rows) \<Rightarrow>
        if headers = [] then Inl IndexError
        else
          let cols = map (\<lambda>j. clean_column pd (map (\<lambda>r. Str (r ! j)) rows)) [0..<length headers];
              labels = map (astype_str pd) (hd cols);
              renamed = map (\<lambda>x. if x = ''index'' then ''Date'' else x) labels;
              prefixed = map (\<lambda>x. if x \<noteq> ''Date'' then chart_prefix chart_title @ ''_'' @ x else x) renamed
          in Inr (prefixed, map (\<lambda>j. (headers ! j, cols ! j)) [1..<length headers]))"

text \<open>
  \<^verbatim>\<open>pd.merge(combined_df, df_t, on="Date", how="outer")\<close>: the keys of both frames, sorted;
  for a key in both, every pair of a left and a right row; for a key in one frame only, its
  rows with missing cells for the columns of the other. A column name that both frames have
  gets the suffixes \<^verbatim>\<open>_x\<close> and \<^verbatim>\<open>_y\<close>.
\<close>

definition merge_columns :: "string list \<Rightarrow> string list \<Rightarrow> string list" where
  "merge_columns ca cb =
     map (\<lambda>c. if c \<in> set cb then c @ ''_x'' else c) ca @
     map (\<lambda>c. if c \<in> set ca then c @ ''_y'' else c) cb"

definition merge_key ::
  "(string, 'n) frame \<Rightarrow> (string, 'n) frame \<Rightarrow> string \<Rightarrow> (string \<times> 'n cell list) list" where
  "merge_key a b k =
     (let ra = filter (\<lambda>r. fst r = k) (snd a);
          rb = filter (\<lambda>r. fst r = k) (snd b)
      in if rb = [] then map (\<lambda>r. (k, snd r @ replicate (length (fst b)) NaN)) ra
         else if ra = [] then map (\<lambda>r. (k, replicate (length (fst a)) NaN @ snd r)) rb
         else concat (map (\<lambda>r. map (\<lambda>r'. (k, snd r @ snd r')) rb) ra))"

definition merge_outer :: "(string, 'n) frame \<Rightarrow> (string, 'n) frame \<Rightarrow> (string, 'n) frame" where
  "merge_outer a b =
     (merge_columns (fst a) (fst b),
      concat (map (merge_key a b) (sort (remdups (frame_dates a @ frame_dates b)))))"

text \<open>
  Lines 226 to 230. Once \<^verbatim>\<open>pd.to_datetime\<close> has run on the \<^verbatim>\<open>Date\<close> column, a merge with the
  string dates of a panel raises \<^verbatim>\<open>ValueError\<close>.
\<close>

definition merge_panel ::
  "'n combined option \<Rightarrow> (string, 'n) frame \<Rightarrow> exn + 'n combined" where
  "merge_panel combined_df df_t =
     (case combined_df of
        None \<Rightarrow> Inr (Undated df_t)
      | Some (Undated f) \<Rightarrow> Inr (Undated (merge_outer f df_t))
      | Some (Dated f) \<Rightarrow> Inl ValueError)"

text \<open>\<^verbatim>\<open>pd.to_datetime(column, errors='coerce')\<close> on the \<^verbatim>\<open>Date\<close> column.\<close>

definition to_datetime :: "'n pandas \<Rightarrow> 'n combined \<Rightarrow> (date, 'n) frame" where
  "to_datetime pd c =
     (case c of
        Undated f \<Rightarrow> (fst f, map (\<lambda>r. (to_datetime_str pd (fst r), snd r)) (snd f))
      | Dated f \<Rightarrow> f)"

text \<open>\<^verbatim>\<open>dt.year.fillna(0).astype(int)\<close>\<close>

definition year_of :: "date \<Rightarrow> int" where
  "year_of d = (case d of None \<Rightarrow> 0 | Some (y, m, dd) \<Rightarrow> y)"

text \<open>
  Lines 185 to 197, for an employee table \<open>df\<close> that is not empty: the dates parsed, the
  \<^verbatim>\<open>Year\<close> column derived, \<^verbatim>\<open>iloc[1:]\<close>, the left merge on \<^verbatim>\<open>Year\<close> (every row of the left
  frame in its order, once for each row of \<open>df\<close> with its year, or once with a missing
  cell), and the \<^verbatim>\<open>Year\<close> column dropped.
\<close>

definition employee_merge ::
  "'n pandas \<Rightarrow> 'n combined \<Rightarrow> (int \<times> int) list \<Rightarrow> (date, 'n) frame" where
  "employee_merge pd combined_df df =
     (let f = to_datetime pd combined_df;
          with_year = map (\<lambda>r. (r, year_of (fst r))) (snd f);
          sliced = tl with_year;
          merged = concat (map (\<lambda>ry.
                     let ms = filter (\<lambda>ye. fst ye = snd ry) df
                     in if ms = [] then [(fst (fst ry), snd (fst ry) @ [NaN])]
                        else map (\<lambda>ye. (fst (fst ry), snd (fst ry) @ [PyInt (snd ye)])) ms) sliced)
      in (fst f @ [''Employees''], merged))"

text \<open>
  Lines 233 to 249: the dates parsed, the rows sorted by date with NaT last, every cell of
  the other columns cleaned. The result is the frame \<^verbatim>\<open>to_csv\<close> writes.
\<close>

definition date_key :: "date \<Rightarrow> nat \<times> int \<times> int \<times> int" where
  "date_key d = (case d of None \<Rightarrow> (1, 0, 0, 0) | Some ymd \<Rightarrow> (0, ymd))"

definition final_format :: "'n pandas \<Rightarrow> 'n combined \<Rightarrow> (date, 'n) frame" where
  "final_format pd combined_df =
     (let f = to_datetime pd combined_df;
          sorted_rows = sort_key (\<lambda>r. date_key (fst r)) (snd f)
      in (fst f, map (\<lambda>r. (fst r, final_clean_column pd (snd r))) sorted_rows))"

subsection \<open>collect_stock_info\<close>

text \<open>
  The body of \<^verbatim>\<open>for chart_title in self.charts\<close>. The conversions of lines 179 and 180 leave
  the \<^verbatim>\<open>Year\<close> and \<^verbatim>\<open>Employees\<close> columns as they are, since both hold Python ints; this
  is so for figures that a 64-bit integer holds, and what the conversions do with a larger
  figure is outside this model. No statement of the body stands inside a \<^verbatim>\<open>try\<close>.
\<close>

definition process_chart ::
  "('e, 'w) collect \<Rightarrow> 'n pandas \<Rightarrow> 'n combined option \<Rightarrow> string \<Rightarrow>
   ('n combined option, 'w) io" where
  "process_chart self pd combined_df chart_title =
     (if to_lower chart_title = ''other metrics'' then
        io_bind (t_click (tools self) chart_title False) (\<lambda>u1.
        io_bind (t_click (tools self) ''Employee Count'' True) (\<lambda>u2.
        io_bind (extract_employee_table_to_df (driver self)) (\<lambda>df.
          if df \<noteq> [] then
            (case combined_df of
               Some c \<Rightarrow> io_return (Some (Dated (employee_merge pd c df)))
             | None \<Rightarrow> io_return combined_df)
          else io_return combined_df)))
      else
        io_bind (t_click (tools self) chart_title False) (\<lambda>u1.
        io_bind (t_quartely (tools self)) (\<lambda>u2.
        io_bind (get_chart self) (\<lambda>df.
        io_bind (io_lift (panel_frame pd chart_title df)) (\<lambda>df_t.
        io_bind (io_lift (merge_panel combined_df df_t)) (\<lambda>c.
        io_return (Some c)))))))"

fun chart_loop ::
  "('e, 'w) collect \<Rightarrow> 'n pandas \<Rightarrow> string list \<Rightarrow> 'n combined option \<Rightarrow>
   ('n combined option, 'w) io" where
  "chart_loop self pd [] combined_df = io_return combined_df"
| "chart_loop self pd (chart_title # rest) combined_df =
     io_bind (process_chart self pd combined_df chart_title) (\<lambda>combined_df'.
     chart_loop self pd rest combined_df')"

text \<open>
  \<^verbatim>\<open>collect_stock_info\<close>. Its result here is the frame it saves, \<open>None\<close> when it prints that
  no data was collected.
\<close>

definition collect_stock_info ::
  "('e, 'w) collect \<Rightarrow> 'n pandas \<Rightarrow> string \<Rightarrow> ((date, 'n) frame option, 'w) io" where
  "collect_stock_info self pd stock_name =
     io_bind (t_search (tools self) stock_name) (\<lambda>u.
     io_bind (chart_loop self pd (charts self) None) (\<lambda>combined_df.
       case combined_df of
         Some c \<Rightarrow> io_return (Some (final_format pd c))
       | None \<Rightarrow> io_return None))"

section \<open>A browser to run the scraper on\<close>

text \<open>
  A page is what the grid shows, where the scrollbar thumb stands (\<open>None\<close>: no scrollbar)
  and the rows of the employee table. The browser shows the page \<open>pages n\<close> after \<open>n\<close> drags
  of the thumb, and remembers the tabs that were clicked.
\<close>

datatype elem =
    Thumb | HeaderSpan nat | GridRow nat | GridCell nat nat
  | TableRow nat | TableCell nat nat | Tab string | AnyElement

record page =
  page_headers :: "string list"
  page_rows :: "string list list"
  page_thumb :: "int option"
  page_employees :: "string list list"

record browser =
  drags :: nat
  clicked :: "string list"

definition start :: browser where
  "start = \<lparr> drags = 0, clicked = [] \<rparr>"

definition pages_of :: "page list \<Rightarrow> nat \<Rightarrow> page" where
  "pages_of ps n = ps ! min n (length ps - 1)"

definition fake_driver :: "(nat \<Rightarrow> page) \<Rightarrow> (elem, browser) webdriver" where
  "fake_driver pages =
     \<lparr> find_element = (\<lambda>loc w.
         if loc = ThumbHorizontalScrollBar \<and> page_thumb (pages (drags w)) \<noteq> None
         then (Inr Thumb, w) else (Inl NoSuchElementException, w)),
       find_elements = (\<lambda>loc w.
         (Inr (if loc = GridColumnHeaderSpans
                 then map HeaderSpan [0..<length (page_headers (pages (drags w)))]
               else if loc = GridContentRows
                 then map GridRow [0..<length (page_rows (pages (drags w)))]
               else if loc = EmployeeTableRows
                 then map TableRow [0..<length (page_employees (pages (drags w)))]
               else []), w)),
       element_find_element = (\<lambda>e loc w.
         (case loc of
            NestedTabLink s \<Rightarrow> (Inr (Tab s), w)
          | SelectedOption \<Rightarrow> (Inr AnyElement, w)
          | _ \<Rightarrow> (Inl NoSuchElementException, w))),
       element_find_elements = (\<lambda>e loc w.
         (Inr (case e of
                 GridRow i \<Rightarrow> map (GridCell i) [0..<length (page_rows (pages (drags w)) ! i)]
               | TableRow i \<Rightarrow> map (TableCell i) [0..<length (page_employees (pages (drags w)) ! i)]
               | _ \<Rightarrow> []), w)),
       element_text = (\<lambda>e w.
         (Inr (case e of
                 HeaderSpan k \<Rightarrow> page_headers (pages (drags w)) ! k
               | GridCell i j \<Rightarrow> page_rows (pages (drags w)) ! i ! j
               | TableCell i j \<Rightarrow> page_employees (pages (drags w)) ! i ! j
               | _ \<Rightarrow> []), w)),
       element_location_x = (\<lambda>e w.
         (case page_thumb (pages (drags w)) of
            None \<Rightarrow> (Inl StaleElementReferenceException, w)
          | Some x \<Rightarrow> (Inr x, w))),
       element_is_displayed = (\<lambda>e w. (Inr False, w)),
       element_click = (\<lambda>e w.
         (Inr (), case e of Tab s \<Rightarrow> w\<lparr> clicked := clicked w @ [s] \<rparr> | _ \<Rightarrow> w)),
       element_clear = (\<lambda>e w. (Inr (), w)),
       element_send_keys = (\<lambda>e s w. (Inr (), w)),
       element_get_attribute = (\<lambda>e a w. (Inr (Some ''0''), w)),
       execute_script = (\<lambda>s args w. (Inr (), w)),
       click_hold_move_release = (\<lambda>e a w. (Inr (), w\<lparr> drags := Suc (drags w) \<rparr>)),
       wait_presence_of_element = (\<lambda>n loc w.
         (Inr (case loc of TabLink s \<Rightarrow> Tab s | _ \<Rightarrow> AnyElement), w)),
       wait_presence_of_all_elements = (\<lambda>n loc w. (Inr [AnyElement, AnyElement], w)),
       wait_element_clickable = (\<lambda>n loc w. (Inr AnyElement, w)),
       wait_no_elements = (\<lambda>n loc w. (Inr (), w)) \<rparr>"

text \<open>The scenario of the specification: a second date column appears after one drag.\<close>

definition scenario_pages :: "nat \<Rightarrow> page" where
  "scenario_pages =
     pages_of
       [\<lparr> page_headers = [''Metric'', ''2023-01-01''],
          page_rows = [[''Revenue'', ''100'']],
          page_thumb = Some 0, page_employees = [] \<rparr>,
        \<lparr> page_headers = [''Metric'', ''2023-01-01'', ''2023-04-01''],
          page_rows = [[''Revenue'', ''100'', ''110'']],
          page_thumb = Some 50, page_employees = [] \<rparr>]"

text \<open>A grid that shows a date never seen before after every drag, the thumb always moving.\<close>

definition date_number :: "nat \<Rightarrow> string" where
  "date_number n =
     [CHR ''2'', CHR ''0'', char_of (48 + n div 10 mod 10), char_of (48 + n mod 10)] @ ''-01-01''"

definition endless_pages :: "nat \<Rightarrow> page" where
  "endless_pages n =
     \<lparr> page_headers = [''Metric'', date_number n],
       page_rows = [[''Revenue'', show_nat n]],
       page_thumb = Some (int n), page_employees = [] \<rparr>"

text \<open>A grid with two rows that shows only its first row after the drag.\<close>

definition shrinking_pages :: "nat \<Rightarrow> page" where
  "shrinking_pages =
     pages_of
       [\<lparr> page_headers = [''Metric'', ''2023-01-01''],
          page_rows = [[''Revenue'', ''100''], [''Cost'', ''50'']],
          page_thumb = Some 0, page_employees = [] \<rparr>,
        \<lparr> page_headers = [''Metric'', ''2023-04-01''],
          page_rows = [[''Revenue'', ''110'']],
          page_thumb = Some 50, page_employees = [] \<rparr>]"

text \<open>A grid with two header cells of the same text and no scrollbar.\<close>

definition twin_header_pages :: "nat \<Rightarrow> page" where
  "twin_header_pages =
     pages_of
       [\<lparr> page_headers = [''Metric'', ''Metric'', ''2023-01-01''],
          page_rows = [[''Revenue'', '''', ''100'']],
          page_thumb = None, page_employees = [] \<rparr>]"

text \<open>Employee tables: a well-formed one, and one whose second year is not a number.\<close>

definition employee_pages :: "nat \<Rightarrow> page" where
  "employee_pages =
     pages_of
       [\<lparr> page_headers = [], page_rows = [], page_thumb = None,
          page_employees = [[''2021'', ''500''], [''Year'', ''Employees'', ''Change''],
                            [''2020'', ''N/A''], [''2019'', ''1,234'']] \<rparr>]"

definition bad_year_pages :: "nat \<Rightarrow> page" where
  "bad_year_pages =
     pages_of
       [\<lparr> page_headers = [], page_rows = [], page_thumb = None,
          page_employees = [[''2021'', ''500''], [''FY20'', ''480'']] \<rparr>]"

text \<open>Sessions that fail: the script call raises; the grid never appears; the drag raises.\<close>

definition script_failing_driver :: "(elem, browser) webdriver" where
  "script_failing_driver =
     (fake_driver scenario_pages)\<lparr> execute_script := (\<lambda>s args w. (Inl JavascriptException, w)) \<rparr>"

definition no_grid_driver :: "(elem, browser) webdriver" where
  "no_grid_driver =
     (fake_driver scenario_pages)
       \<lparr> wait_presence_of_element := (\<lambda>n loc w.
            if loc = JqxGrid then (Inl TimeoutException, w)
            else (Inr (case loc of TabLink s \<Rightarrow> Tab s | _ \<Rightarrow> AnyElement), w)) \<rparr>"

definition stale_scan_driver :: "(elem, browser) webdriver" where
  "stale_scan_driver =
     (fake_driver scenario_pages)
       \<lparr> element_text := (\<lambda>e w.
            if drags w = 0 then element_text (fake_driver scenario_pages) e w
            else (Inl StaleElementReferenceException, w)) \<rparr>"

text \<open>
  An instance of the pandas functions on decimal numbers \<open>(m, k)\<close>, read as \<open>m / 10 ^ k\<close>:
  plain decimal literals are read, every number prints as it is read back, and dates are
  read in the form year-month-day. The instance reads less than pandas does: no exponent
  form, no \<^verbatim>\<open>inf\<close>, numbers kept exactly where pandas rounds to a \<^verbatim>\<open>float64\<close>, and of the dates
  only the days of the calendar in the years a nanosecond timestamp holds, each string
  read on its own. It serves the examples, whose figures a \<^verbatim>\<open>float64\<close> holds exactly; the
  theorems are stated for every record of pandas functions.
\<close>

type_synonym decimal = "int \<times> nat"

definition decimal_value :: "decimal \<Rightarrow> rat" where
  "decimal_value d = of_int (fst d) / 10 ^ snd d"

definition parse_decimal :: "string \<Rightarrow> decimal parsed" where
  "parse_decimal s =
     (let neg = (s \<noteq> [] \<and> hd s = CHR ''-'');
          body = (if s \<noteq> [] \<and> (hd s = CHR ''-'' \<or> hd s = CHR ''+'') then tl s else s);
          ip = takeWhile is_digit body;
          rest = dropWhile is_digit body;
          fp = rev (dropWhile (\<lambda>c. c = CHR ''0'') (rev (tl rest)));
          sgn = (if neg then - 1 else 1)
      in if s = [] \<or> s = ''nan'' then ParsedNaN
         else if rest = [] then
           (if ip = [] then Unparseable else Parsed (sgn * int (digits_value ip), 0))
         else if hd rest = CHR ''.'' \<and> list_all is_digit (tl rest) \<and> (ip \<noteq> [] \<or> tl rest \<noteq> [])
           then Parsed (sgn * int (digits_value (ip @ fp)), length fp)
         else Unparseable)"

definition print_decimal :: "decimal \<Rightarrow> string" where
  "print_decimal d =
     (let ds = show_nat (nat \<bar>fst d\<bar>);
          padded = replicate (Suc (snd d) - length ds) CHR ''0'' @ ds;
          ip = take (length padded - snd d) padded;
          fp = drop (length padded - snd d) padded
      in (if fst d < 0 then ''-'' else []) @ ip @ ''.'' @ (if fp = [] then ''0'' else fp))"

definition days_in_month :: "nat \<Rightarrow> nat \<Rightarrow> nat" where
  "days_in_month y m =
     (if m = 2 then (if y mod 4 = 0 \<and> (y mod 100 \<noteq> 0 \<or> y mod 400 = 0) then 29 else 28)
      else if m = 4 \<or> m = 6 \<or> m = 9 \<or> m = 11 then 30 else 31)"

definition parse_iso_date :: "string \<Rightarrow> (int \<times> int \<times> int) option" where
  "parse_iso_date s =
     (let y = digits_value (take 4 s);
          m = digits_value (take 2 (drop 5 s));
          d = digits_value (take 2 (drop 8 s))
      in if date_shape s \<and> 1678 \<le> y \<and> y \<le> 2261 \<and> 1 \<le> m \<and> m \<le> 12 \<and>
            1 \<le> d \<and> d \<le> days_in_month y m
         then Some (int y, int m, int d) else None)"

definition decimal_pandas :: "decimal pandas" where
  "decimal_pandas =
     \<lparr> to_numeric_str = parse_decimal,
       num_of_int = (\<lambda>i. (i, 0)),
       str_of_num = print_decimal,
       to_datetime_str = parse_iso_date \<rparr>"

text \<open>
  A company page: the grid of every tab shows the two dates of a year, and the employee
  table has the figure of that year.
\<close>

definition employee_year_pages :: "nat \<Rightarrow> page" where
  "employee_year_pages =
     pages_of
       [\<lparr> page_headers = [''Metric'', ''2021-03-01'', ''2021-09-01''],
          page_rows = [[''Revenue'', ''100'', ''110'']],
          page_thumb = None,
          page_employees = [[''2021'', ''500'']] \<rparr>]"

text \<open>
  A session whose page depends on the tabs clicked so far, and a company page of that kind:
  the grid of the tab \<^verbatim>\<open>Financials\<close> shows the first two quarters of 2023, the grid of every
  other tab the second and the third, and the employee table has the figure of 2023.
\<close>

definition tab_driver :: "(string list \<Rightarrow> page) \<Rightarrow> (elem, browser) webdriver" where
  "tab_driver tabs =
     (fake_driver (\<lambda>n. tabs []))
       \<lparr> find_element := (\<lambda>loc w. find_element (fake_driver (\<lambda>n. tabs (clicked w))) loc w),
         find_elements := (\<lambda>loc w. find_elements (fake_driver (\<lambda>n. tabs (clicked w))) loc w),
         element_find_elements :=
           (\<lambda>e loc w. element_find_elements (fake_driver (\<lambda>n. tabs (clicked w))) e loc w),
         element_text := (\<lambda>e w. element_text (fake_driver (\<lambda>n. tabs (clicked w))) e w),
         element_location_x :=
           (\<lambda>e w. element_location_x (fake_driver (\<lambda>n. tabs (clicked w))) e w) \<rparr>"

definition two_panel_pages :: "string list \<Rightarrow> page" where
  "two_panel_pages tabs =
     (if tabs = [] \<or> last tabs = ''Financials''
      then \<lparr> page_headers = [''Metric'', ''2023-01-01'', ''2023-04-01''],
             page_rows = [[''Revenue'', ''100'', ''110'']],
             page_thumb = None, page_employees = [[''2023'', ''500'']] \<rparr>
      else \<lparr> page_headers = [''Metric'', ''2023-04-01'', ''2023-07-01''],
             page_rows = [[''Cash'', ''7'', ''8'']],
             page_thumb = None, page_employees = [[''2023'', ''500'']] \<rparr>)"

text \<open>The frames of two panels that share one of their two dates.\<close>

definition revenue_panel :: "(string, decimal) frame" where
  "revenue_panel =
     ([''financials_Revenue''],
      [(''2023-01-01'', [Num (100, 0)]), (''2023-04-01'', [Num (110, 0)])])"

definition cash_panel :: "(string, decimal) frame" where
  "cash_panel =
     ([''balance_sheet_Cash''],
      [(''2023-04-01'', [Num (7, 0)]), (''2023-07-01'', [Num (8, 0)])])"

section \<open>Predicates for the statements\<close>

text \<open>A computation completes when it raises from no state of the session.\<close>

definition completes :: "('a, 'w) io \<Rightarrow> bool" where
  "completes m = (\<forall>w. returns (m w))"

text \<open>The tools with the boolean that \<^verbatim>\<open>drag_scrollbar\<close> returns replaced by \<open>b\<close>.\<close>

definition with_scrolled :: "bool \<Rightarrow> 'w tools \<Rightarrow> 'w tools" where
  "with_scrolled b t =
     t\<lparr> t_drag_scrollbar := (\<lambda>a. io_bind (t_drag_scrollbar t a) (\<lambda>scrolled. io_return b)) \<rparr>"

text \<open>Every scan of the grid yields a header list without a repeated string.\<close>

definition distinct_scans :: "('e, 'w) webdriver \<Rightarrow> bool" where
  "distinct_scans d =
     (\<forall>w nh nd w'. extract_grid_data d w = (Inr (nh, nd), w') \<longrightarrow> distinct nh)"

text \<open>Every row has as many cells as there are headers.\<close>

definition rows_match_headers :: "string list \<Rightarrow> string list list \<Rightarrow> bool" where
  "rows_match_headers headers rows = list_all (\<lambda>row. length row = length headers) rows"

text \<open>A number prints to a string that pandas reads back as the same number.\<close>

definition reads_back :: "'n pandas \<Rightarrow> 'n \<Rightarrow> bool" where
  "reads_back pd n =
     (to_numeric_str pd (filter (\<lambda>x. x \<notin> {CHR ''$'', CHR '','', CHR ''%''}) (str_of_num pd n))
        = Parsed n)"

text \<open>
  \<^verbatim>\<open>pd.to_numeric\<close> raises on no cell of the column once the two replacements of the first
  pass are done: with \<^verbatim>\<open>errors='ignore'\<close> the column is then converted, and otherwise left.
\<close>

definition column_parses :: "'n pandas \<Rightarrow> 'n cell list \<Rightarrow> bool" where
  "column_parses pd col =
     (\<not> list_ex (\<lambda>c. parse_cell pd c = Unparseable) (map strip_symbols (map replace_dash col)))"

section \<open>Basic facts about computations\<close>

lemma io_return_apply: "io_return x w = (Inr x, w)"
  by (simp add: io_return_def)

lemma io_bind_apply:
  "io_bind m f w = (case m w of (Inl e, w') \<Rightarrow> (Inl e, w') | (Inr x, w') \<Rightarrow> f x w')"
  by (simp add: io_bind_def)

lemma io_try_apply:
  "io_try body handler w =
     (case body w of (Inl e, w') \<Rightarrow> handler e w' | (Inr x, w') \<Rightarrow> (Inr x, w'))"
  by (simp add: io_try_def)

lemma io_lift_apply: "io_lift r w = (r, w)"
  by (simp add: io_lift_def)

lemma returns_Inr: "returns (Inr x, w)"
  by (simp add: returns_def)

lemma returns_Inl: "\<not> returns (Inl e, w)"
  by (simp add: returns_def)

lemma returns_cases: "returns r \<Longrightarrow> \<exists>x w. r = (Inr x, w)"
  by (cases r; cases "fst r") (auto simp: returns_def)

lemma io_bind_assoc: "io_bind (io_bind m f) g = io_bind m (\<lambda>x. io_bind (f x) g)"
  by (rule ext) (simp add: io_bind_apply split: prod.splits sum.splits)

lemma io_bind_return: "io_bind (io_return x) f = f x"
  by (rule ext) (simp add: io_bind_apply io_return_apply)

lemma io_map_pure:
  assumes "\<And>x. x \<in> set xs \<Longrightarrow> f x w = (Inr (g x), w)"
  shows "io_map f xs w = (Inr (map g xs), w)"
  using assms
  by (induction xs) (simp_all add: io_return_apply io_bind_apply)

section \<open>The scroll loop of get_chart\<close>

lemma scroll_loop_counted_outcome:
  "fst (scroll_loop_counted t attempts hs rows w) = scroll_loop t attempts hs rows w"
proof (induction t attempts hs rows w rule: scroll_loop_counted.induct)
  case (1 t attempts all_headers all_data w)
  show ?case
  proof (cases "attempts < max_scroll_attempts")
    case False
    then show ?thesis by simp
  next
    case True
    obtain r w' where b: "scroll_body t all_headers all_data w = (r, w')"
      by (cases "scroll_body t all_headers all_data w")
    show ?thesis
    proof (cases r)
      case (Inl e)
      with b True show ?thesis by simp
    next
      case (Inr st)
      show ?thesis
      proof (cases st)
        case None
        with b Inr True show ?thesis by simp
      next
        case (Some acc)
        obtain hs' rows' where acc: "acc = (hs', rows')" by (cases acc)
        have "fst (scroll_loop_counted t (attempts + 1) hs' rows' w')
                = scroll_loop t (attempts + 1) hs' rows' w'"
          using "1.IH" True b Inr Some acc by simp
        with b Inr Some acc True show ?thesis by simp
      qed
    qed
  qed
qed

lemma scroll_loop_counted_bound:
  "snd (scroll_loop_counted t attempts hs rows w) \<le> max_scroll_attempts - attempts"
proof (induction t attempts hs rows w rule: scroll_loop_counted.induct)
  case (1 t attempts all_headers all_data w)
  show ?case
  proof (cases "attempts < max_scroll_attempts")
    case False
    then show ?thesis by simp
  next
    case True
    obtain r w' where b: "scroll_body t all_headers all_data w = (r, w')"
      by (cases "scroll_body t all_headers all_data w")
    show ?thesis
    proof (cases r)
      case (Inl e)
      with b True show ?thesis by simp
    next
      case (Inr st)
      show ?thesis
      proof (cases st)
        case None
        with b Inr True show ?thesis by simp
      next
        case (Some acc)
        obtain hs' rows' where acc: "acc = (hs', rows')" by (cases acc)
        have "snd (scroll_loop_counted t (attempts + 1) hs' rows' w')
                \<le> max_scroll_attempts - (attempts + 1)"
          using "1.IH" True b Inr Some acc by simp
        with b Inr Some acc True show ?thesis by simp
      qed
    qed
  qed
qed

lemma get_scrollbar_thumb_x_returns: "returns (get_scrollbar_thumb_x d w)"
  by (auto simp: get_scrollbar_thumb_x_def io_try_apply io_bind_apply io_return_apply returns_def
      split: prod.splits sum.splits)

lemma drag_scrollbar_returns: "returns (drag_scrollbar d a w)"
  by (auto simp: drag_scrollbar_def io_try_apply io_bind_apply io_return_apply returns_def
      split: prod.splits sum.splits)

lemma scroll_body_returns:
  assumes "\<And>w. returns (t_get_scrollbar_thumb_x t w)"
      and "\<And>a w. returns (t_drag_scrollbar t a w)"
      and "\<And>w. returns (t_extract_grid_data t w)"
  shows "returns (scroll_body t hs rows w)"
proof -
  obtain xb w1 where a: "t_get_scrollbar_thumb_x t w = (Inr xb, w1)"
    using returns_cases[OF assms(1)] by blast
  obtain sc w2 where b: "t_drag_scrollbar t 100 w1 = (Inr sc, w2)"
    using returns_cases[OF assms(2)] by blast
  obtain xa w3 where c: "t_get_scrollbar_thumb_x t w2 = (Inr xa, w3)"
    using returns_cases[OF assms(1)] by blast
  obtain nh nd w4 where d: "t_extract_grid_data t w3 = (Inr (nh, nd), w4)"
    using returns_cases[OF assms(3), of w3] by auto
  show ?thesis
    using a b c d
    by (auto simp: scroll_body_def io_bind_apply io_return_apply returns_def Let_def
        split: option.splits)
qed

lemma scroll_loop_returns:
  assumes "\<And>w. returns (t_get_scrollbar_thumb_x t w)"
      and "\<And>a w. returns (t_drag_scrollbar t a w)"
      and "\<And>w. returns (t_extract_grid_data t w)"
  shows "returns (scroll_loop t attempts hs rows w)"
  using assms
proof (induction t attempts hs rows w rule: scroll_loop.induct)
  case (1 t attempts all_headers all_data w)
  note tot = "1.prems"
  show ?case
  proof (cases "attempts < max_scroll_attempts")
    case False
    then show ?thesis by (simp add: returns_def)
  next
    case True
    obtain st w' where b: "scroll_body t all_headers all_data w = (Inr st, w')"
      using returns_cases[OF scroll_body_returns[OF tot]] by blast
    show ?thesis
    proof (cases st)
      case None
      with b True show ?thesis by (simp add: returns_def)
    next
      case (Some acc)
      obtain hs' rows' where acc: "acc = (hs', rows')" by (cases acc)
      have "returns (scroll_loop t (attempts + 1) hs' rows' w')"
        using "1.IH" True b Some acc tot by simp
      with b Some acc True show ?thesis by simp
    qed
  qed
qed

text \<open>A property that every pass of the loop body keeps holds of what the loop returns.\<close>

lemma scroll_loop_invariant:
  assumes "\<And>hs rows w hs' rows' w'.
      P hs rows \<Longrightarrow> scroll_body t hs rows w = (Inr (Some (hs', rows')), w') \<Longrightarrow> P hs' rows'"
      and "P hs rows" and "scroll_loop t attempts hs rows w = (Inr (hs1, rows1), w1)"
  shows "P hs1 rows1"
  using assms
proof (induction t attempts hs rows w rule: scroll_loop.induct)
  case (1 t attempts all_headers all_data w)
  note step = "1.prems"(1) and P0 = "1.prems"(2) and run = "1.prems"(3)
  show ?case
  proof (cases "attempts < max_scroll_attempts")
    case False
    with P0 run show ?thesis by simp
  next
    case True
    obtain r w' where b: "scroll_body t all_headers all_data w = (r, w')"
      by (cases "scroll_body t all_headers all_data w")
    show ?thesis
    proof (cases r)
      case (Inl e)
      with b True run show ?thesis by simp
    next
      case (Inr st)
      show ?thesis
      proof (cases st)
        case None
        with b Inr True P0 run show ?thesis by simp
      next
        case (Some acc)
        obtain hs' rows' where acc: "acc = (hs', rows')" by (cases acc)
        have P': "P hs' rows'"
          using step[OF P0] b Inr Some acc by simp
        have "scroll_loop t (attempts + 1) hs' rows' w' = (Inr (hs1, rows1), w1)"
          using run b Inr Some acc True by simp
        then show ?thesis
          using "1.IH"[OF True b[symmetric] Inr Some acc[symmetric] step P'] by simp
      qed
    qed
  qed
qed

lemma scroll_body_headers:
  assumes "scroll_body t hs rows w = (Inr (Some (hs', rows')), w')"
  shows "\<exists>nh nd w0 w1. t_extract_grid_data t w0 = (Inr (nh, nd), w1) \<and>
           hs' = hs @ new_date_columns (t_looks_like_date t) nh hs"
  using assms
  by (auto simp: scroll_body_def io_bind_apply io_return_apply Let_def
      split: prod.splits sum.splits option.splits if_splits)

lemma distinct_new_date_columns:
  "distinct hs \<Longrightarrow> distinct nh \<Longrightarrow> distinct (hs @ new_date_columns p nh hs)"
  by (auto simp: new_date_columns_def)

lemma length_normalize_row: "length (normalize_row n row) = n"
  by (simp add: normalize_row_def)

lemma normalize_row_pad_cut:
  "normalize_row n row = take n row @ replicate (n - length row) []"
  by (simp add: normalize_row_def)

lemma get_chart_result:
  assumes "get_chart self w = (Inr (headers, rows), w')"
  shows "\<exists>hs0 rows0 w0 w1 data.
           t_extract_grid_data (tools self) w0 = (Inr (hs0, rows0), w1) \<and>
           scroll_loop (tools self) 0 hs0 rows0 w1 = (Inr (headers, data), w') \<and>
           rows = map (normalize_row (length headers)) data"
proof -
  obtain u w2 where a: "t_scroll_down (tools self) 150 w = (Inr u, w2)"
    using assms
    by (cases "t_scroll_down (tools self) 150 w"; cases "fst (t_scroll_down (tools self) 150 w)")
       (auto simp: get_chart_def io_bind_apply)
  obtain g w3 where b: "wait_presence_of_element (driver self) 20 JqxGrid w2 = (Inr g, w3)"
    using assms a
    by (cases "wait_presence_of_element (driver self) 20 JqxGrid w2";
        cases "fst (wait_presence_of_element (driver self) 20 JqxGrid w2)")
       (auto simp: get_chart_def io_bind_apply)
  obtain hs0 rows0 w4 where c: "t_extract_grid_data (tools self) w3 = (Inr (hs0, rows0), w4)"
    using assms a b
    by (cases "t_extract_grid_data (tools self) w3";
        cases "fst (t_extract_grid_data (tools self) w3)")
       (auto simp: get_chart_def io_bind_apply)
  obtain hs data w5 where d: "scroll_loop (tools self) 0 hs0 rows0 w4 = (Inr (hs, data), w5)"
    using assms a b c
    by (cases "scroll_loop (tools self) 0 hs0 rows0 w4";
        cases "fst (scroll_loop (tools self) 0 hs0 rows0 w4)")
       (auto simp: get_chart_def io_bind_apply simp del: scroll_loop.simps)
  have "headers = hs \<and> rows = map (normalize_row (length hs)) data \<and> w' = w5"
    using assms a b c d
    by (auto simp: get_chart_def io_bind_apply io_return_apply simp del: scroll_loop.simps)
  with c d show ?thesis by blast
qed

lemma Tools_simps:
  "t_looks_like_date (Tools d) = looks_like_date"
  "t_extract_grid_data (Tools d) = extract_grid_data d"
  "t_get_scrollbar_thumb_x (Tools d) = get_scrollbar_thumb_x d"
  "t_drag_scrollbar (Tools d) = drag_scrollbar d"
  "t_scroll_down (Tools d) = scroll_down d"
  "t_search (Tools d) = search d"
  "t_click (Tools d) = click d"
  "t_quartely (Tools d) = quartely d"
  by (simp_all add: Tools_def)

lemma Collect_simps:
  "driver (Collect d) = d" "tools (Collect d) = Tools d"
  by (simp_all add: Collect_def)

section \<open>The browser\<close>

lemma fake_driver_extract_grid_data:
  "extract_grid_data (fake_driver pages) w =
     (Inr (map strip (page_headers (pages (drags w))),
           map (map strip) (page_rows (pages (drags w)))), w)"
proof -
  let ?p = "pages (drags w)"
  let ?d = "fake_driver pages"
  have h: "io_map (\<lambda>h. io_bind (element_text ?d h) (\<lambda>t. io_return (strip t)))
             (map HeaderSpan [0..<length (page_headers ?p)]) w
           = (Inr (map (\<lambda>e. case e of HeaderSpan k \<Rightarrow> strip (page_headers ?p ! k) | _ \<Rightarrow> [])
                 (map HeaderSpan [0..<length (page_headers ?p)])), w)"
    by (rule io_map_pure) (auto simp: fake_driver_def io_bind_apply io_return_apply)
  have c: "\<And>i. io_map (\<lambda>cell. io_bind (element_text ?d cell) (\<lambda>t. io_return (strip t)))
             (map (GridCell i) [0..<length (page_rows ?p ! i)]) w
           = (Inr (map (\<lambda>e. case e of GridCell i j \<Rightarrow> strip (page_rows ?p ! i ! j) | _ \<Rightarrow> [])
                 (map (GridCell i) [0..<length (page_rows ?p ! i)])), w)"
    by (rule io_map_pure) (auto simp: fake_driver_def io_bind_apply io_return_apply)
  have r: "io_map (\<lambda>row. io_bind (element_find_elements ?d row GridCells) (\<lambda>cells.
              io_map (\<lambda>cell. io_bind (element_text ?d cell) (\<lambda>t. io_return (strip t))) cells))
             (map GridRow [0..<length (page_rows ?p)]) w
           = (Inr (map (\<lambda>e. case e of GridRow i \<Rightarrow> map strip (page_rows ?p ! i) | _ \<Rightarrow> [])
                 (map GridRow [0..<length (page_rows ?p)])), w)"
  proof (rule io_map_pure)
    fix x
    assume "x \<in> set (map GridRow [0..<length (page_rows ?p)])"
    then obtain i where x: "x = GridRow i" by auto
    have f: "element_find_elements ?d (GridRow i) GridCells w
               = (Inr (map (GridCell i) [0..<length (page_rows ?p ! i)]), w)"
      by (simp add: fake_driver_def)
    have m: "map (\<lambda>e. case e of GridCell i j \<Rightarrow> strip (page_rows ?p ! i ! j) | _ \<Rightarrow> [])
               (map (GridCell i) [0..<length (page_rows ?p ! i)]) = map strip (page_rows ?p ! i)"
      by (rule nth_equalityI) simp_all
    show "io_bind (element_find_elements ?d x GridCells) (\<lambda>cells.
              io_map (\<lambda>cell. io_bind (element_text ?d cell) (\<lambda>t. io_return (strip t))) cells) w
          = (Inr (case x of GridRow i \<Rightarrow> map strip (page_rows ?p ! i) | _ \<Rightarrow> []), w)"
      unfolding x by (simp add: io_bind_apply f c m del: map_map)
  qed
  have hm: "map (\<lambda>e. case e of HeaderSpan k \<Rightarrow> strip (page_headers ?p ! k) | _ \<Rightarrow> [])
              (map HeaderSpan [0..<length (page_headers ?p)]) = map strip (page_headers ?p)"
    by (rule nth_equalityI) simp_all
  have rm: "map (\<lambda>e. case e of GridRow i \<Rightarrow> map strip (page_rows ?p ! i) | _ \<Rightarrow> [])
              (map GridRow [0..<length (page_rows ?p)]) = map (map strip) (page_rows ?p)"
    by (rule nth_equalityI) simp_all
  have fh: "find_elements ?d GridColumnHeaderSpans w
              = (Inr (map HeaderSpan [0..<length (page_headers ?p)]), w)"
    by (simp add: fake_driver_def)
  have fr: "find_elements ?d GridContentRows w
              = (Inr (map GridRow [0..<length (page_rows ?p)]), w)"
    by (simp add: fake_driver_def)
  show ?thesis
    by (simp add: extract_grid_data_def io_bind_apply io_return_apply fh fr h r hm rm del: map_map)
qed

section \<open>Claims about get_chart\<close>

text \<open>
  C9. \<^verbatim>\<open>Tools.drag_scrollbar\<close> never raises. It returns \<open>True\<close> exactly when the thumb is found
  and the click-hold-move-release gesture completes, and \<open>False\<close> otherwise. The scroll loop
  of \<^verbatim>\<open>get_chart\<close> does not read the boolean: with any other boolean in its place, and the
  same effect of the drag on the page, \<^verbatim>\<open>get_chart\<close> computes the same outcome.
\<close>

theorem drag_scrollbar_boolean_unread:
  "(\<exists>b. fst (drag_scrollbar d amount w) = Inr b) \<and>
   (fst (drag_scrollbar d amount w) = Inr True) =
     (\<exists>thumb w1. find_element d ThumbHorizontalScrollBar w = (Inr thumb, w1) \<and>
        returns (click_hold_move_release d thumb amount w1)) \<and>
   get_chart (self\<lparr> tools := with_scrolled b (tools self) \<rparr>) = get_chart self"
proof (intro conjI)
  show "\<exists>b. fst (drag_scrollbar d amount w) = Inr b"
    using returns_cases[OF drag_scrollbar_returns[of d amount w]] by auto
  show "(fst (drag_scrollbar d amount w) = Inr True) =
     (\<exists>thumb w1. find_element d ThumbHorizontalScrollBar w = (Inr thumb, w1) \<and>
        returns (click_hold_move_release d thumb amount w1))"
    by (auto simp: drag_scrollbar_def io_try_apply io_bind_apply io_return_apply returns_def
        split: prod.splits sum.splits)
  have body: "scroll_body (with_scrolled b t) = scroll_body t" for t :: "'c tools"
    by (intro ext)
       (simp add: scroll_body_def with_scrolled_def io_bind_assoc io_bind_return
          cong: option.case_cong if_cong)
  have loop: "scroll_loop (with_scrolled b t) attempts hs rows w = scroll_loop t attempts hs rows w"
    for t :: "'c tools" and attempts hs rows w
  proof (induction t attempts hs rows w rule: scroll_loop.induct)
    case (1 t attempts all_headers all_data w)
    show ?case
    proof (cases "attempts < max_scroll_attempts")
      case False
      then show ?thesis by simp
    next
      case True
      obtain r w' where sb: "scroll_body t all_headers all_data w = (r, w')"
        by (cases "scroll_body t all_headers all_data w")
      show ?thesis
      proof (cases r)
        case (Inl e)
        with sb True show ?thesis
          by (simp add: body)
      next
        case (Inr st)
        show ?thesis
        proof (cases st)
          case None
          with sb Inr True show ?thesis by (simp add: body)
        next
          case (Some acc)
          obtain hs' rows' where acc: "acc = (hs', rows')" by (cases acc)
          have "scroll_loop (with_scrolled b t) (attempts + 1) hs' rows' w'
                  = scroll_loop t (attempts + 1) hs' rows' w'"
            using "1.IH" True sb Inr Some acc by simp
          with sb Inr Some acc True show ?thesis
            by (simp add: body)
        qed
      qed
    qed
  qed
  have fields:
    "t_scroll_down (with_scrolled b t) = t_scroll_down t"
    "t_extract_grid_data (with_scrolled b t) = t_extract_grid_data t" for t :: "'c tools"
    by (simp_all add: with_scrolled_def)
  show "get_chart (self\<lparr> tools := with_scrolled b (tools self) \<rparr>) = get_chart self"
    by (intro ext) (simp add: get_chart_def fields loop[abs_def] del: scroll_loop.simps)
qed

theorem drag_scrollbar_boolean_unread_witness:
  "(\<exists>b. fst (drag_scrollbar (fake_driver scenario_pages) 100 start) = Inr b) \<and>
   (fst (drag_scrollbar (fake_driver scenario_pages) 100 start) = Inr True) =
     (\<exists>thumb w1. find_element (fake_driver scenario_pages) ThumbHorizontalScrollBar start
          = (Inr thumb, w1) \<and>
        returns (click_hold_move_release (fake_driver scenario_pages) thumb 100 w1)) \<and>
   get_chart ((Collect (fake_driver scenario_pages))
       \<lparr> tools := with_scrolled False (tools (Collect (fake_driver scenario_pages))) \<rparr>)
     = get_chart (Collect (fake_driver scenario_pages))"
  by (rule drag_scrollbar_boolean_unread)

lemma get_chart_prefix:
  "get_chart self w =
     (case io_bind (t_scroll_down (tools self) 150) (\<lambda>u.
           io_bind (wait_presence_of_element (driver self) 20 JqxGrid) (\<lambda>grid.
           t_extract_grid_data (tools self))) w of
        (Inl e, w') \<Rightarrow> (Inl e, w')
      | (Inr (all_headers0, all_data0), w') \<Rightarrow>
          (case scroll_loop (tools self) 0 all_headers0 all_data0 w' of
             (Inl e, w'') \<Rightarrow> (Inl e, w'')
           | (Inr (all_headers, all_data), w'') \<Rightarrow>
               (Inr (all_headers, map (normalize_row (length all_headers)) all_data), w'')))"
  by (auto simp: get_chart_def io_bind_apply io_return_apply
      simp del: scroll_loop.simps split: prod.splits sum.splits)

lemma get_chart_counted_cases:
  obtains e w' where
      "io_bind (t_scroll_down (tools self) 150) (\<lambda>u.
         io_bind (wait_presence_of_element (driver self) 20 JqxGrid) (\<lambda>grid.
         t_extract_grid_data (tools self))) w = (Inl e, w')"
      "get_chart_counted self w = ((Inl e, w'), 0)" "get_chart self w = (Inl e, w')"
  | h0 d0 w' r w'' n where
      "scroll_loop_counted (tools self) 0 h0 d0 w' = ((r, w''), n)"
      "scroll_loop (tools self) 0 h0 d0 w' = (r, w'')"
      "get_chart_counted self w =
         ((case r of Inl e \<Rightarrow> Inl e
           | Inr acc \<Rightarrow> Inr (fst acc, map (normalize_row (length (fst acc))) (snd acc)), w''), n)"
      "get_chart self w =
         (case r of Inl e \<Rightarrow> Inl e
          | Inr acc \<Rightarrow> Inr (fst acc, map (normalize_row (length (fst acc))) (snd acc)), w'')"
proof -
  let ?p = "io_bind (t_scroll_down (tools self) 150) (\<lambda>u.
              io_bind (wait_presence_of_element (driver self) 20 JqxGrid) (\<lambda>grid.
              t_extract_grid_data (tools self))) w"
  obtain r1 w1 where p: "?p = (r1, w1)" by (cases ?p)
  show ?thesis
  proof (cases r1)
    case (Inl e)
    with p show ?thesis
      by (intro that(1)[of e w1]) (simp_all add: get_chart_counted_def get_chart_prefix)
  next
    case (Inr scan)
    obtain h0 d0 where scan: "scan = (h0, d0)" by (cases scan)
    obtain r2 w2 n where c: "scroll_loop_counted (tools self) 0 h0 d0 w1 = ((r2, w2), n)"
      by (metis prod.exhaust)
    have l: "scroll_loop (tools self) 0 h0 d0 w1 = (r2, w2)"
      using scroll_loop_counted_outcome[of "tools self" 0 h0 d0 w1] c by simp
    show ?thesis
    proof (rule that(2)[OF c l])
      show "get_chart_counted self w =
         ((case r2 of Inl e \<Rightarrow> Inl e
           | Inr acc \<Rightarrow> Inr (fst acc, map (normalize_row (length (fst acc))) (snd acc)), w2), n)"
        using p Inr scan c
        by (cases r2) (auto simp: get_chart_counted_def simp del: scroll_loop_counted.simps)
      show "get_chart self w =
         (case r2 of Inl e \<Rightarrow> Inl e
          | Inr acc \<Rightarrow> Inr (fst acc, map (normalize_row (length (fst acc))) (snd acc)), w2)"
        using p Inr scan l
        by (cases r2) (auto simp: get_chart_prefix simp del: scroll_loop.simps)
    qed
  qed
qed

lemma get_chart_counted_outcome: "fst (get_chart_counted self w) = get_chart self w"
  by (rule get_chart_counted_cases[of self w]) simp_all

lemma get_chart_counted_bound: "snd (get_chart_counted self w) \<le> max_scroll_attempts"
proof (rule get_chart_counted_cases[of self w])
  fix e w'
  assume "get_chart_counted self w = ((Inl e, w'), 0)"
  then show ?thesis by simp
next
  fix h0 d0 w' r w'' n
  assume c: "scroll_loop_counted (tools self) 0 h0 d0 w' = ((r, w''), n)"
    and g: "get_chart_counted self w =
         ((case r of Inl e \<Rightarrow> Inl e
           | Inr acc \<Rightarrow> Inr (fst acc, map (normalize_row (length (fst acc))) (snd acc)), w''), n)"
  have "n \<le> max_scroll_attempts"
    using scroll_loop_counted_bound[of "tools self" 0 h0 d0 w'] c by simp
  then show ?thesis
    using g by simp
qed

lemma get_chart_normalizes:
  "get_chart self w =
     (case get_chart_accumulated self w of
        (Inl e, w') \<Rightarrow> (Inl e, w')
      | (Inr (hs, data), w') \<Rightarrow> (Inr (hs, map (normalize_row (length hs)) data), w'))"
  by (auto simp: get_chart_def get_chart_accumulated_def io_bind_apply io_return_apply
      simp del: scroll_loop.simps split: prod.splits sum.splits)

lemma normalize_row_cases:
  "normalize_row n row =
     (if length row < n then row @ replicate (n - length row) [] else take n row)"
  by (simp add: normalize_row_def)

lemma fake_driver_completes:
  "completes (scroll_down (fake_driver pages) n)"
  "completes (wait_presence_of_element (fake_driver pages) n' loc)"
  "completes (extract_grid_data (fake_driver pages))"
  by (simp_all add: completes_def returns_def fake_driver_extract_grid_data)
     (simp_all add: fake_driver_def scroll_down_def)

text \<open>
  C1, as the claim states it, fails: \<^verbatim>\<open>get_chart\<close> does not return a table for every
  behaviour of the scanner. Here the thumb moves at the first drag, and the cells have gone
  stale when the scan that follows reads them: the exception of that scan leaves
  \<^verbatim>\<open>get_chart\<close>, after one pass of the loop.
\<close>

theorem stale_scan_counterexample:
  "fst (get_chart (Collect stale_scan_driver) start) = Inl StaleElementReferenceException \<and>
   \<not> returns (get_chart (Collect stale_scan_driver) start) \<and>
   snd (get_chart_counted (Collect stale_scan_driver) start) = 1"
  by code_simp

text \<open>
  C1, amended. Whatever the session does, the body of the scroll loop of \<^verbatim>\<open>get_chart\<close> is
  entered at most \<^verbatim>\<open>max_scroll_attempts\<close> = 50 times on a run (the count stands beside the
  outcome of \<^verbatim>\<open>get_chart\<close> itself), and \<^verbatim>\<open>get_chart\<close> returns a table whenever none of the
  calls it does not guard (the page scroll, the wait for the grid, the scans) raises. The
  bound comes from the \<^verbatim>\<open>attempts\<close> counter alone.
\<close>

theorem get_chart_bounded:
  "max_scroll_attempts = 50 \<and>
   fst (get_chart_counted (Collect d) w) = get_chart (Collect d) w \<and>
   snd (get_chart_counted (Collect d) w) \<le> max_scroll_attempts \<and>
   (completes (scroll_down d 150) \<and> completes (wait_presence_of_element d 20 JqxGrid) \<and>
    completes (extract_grid_data d) \<longrightarrow> returns (get_chart (Collect d) w))"
proof (intro conjI impI)
  show "max_scroll_attempts = 50" by (simp add: max_scroll_attempts_def)
  show "fst (get_chart_counted (Collect d) w) = get_chart (Collect d) w"
    by (rule get_chart_counted_outcome)
  show "snd (get_chart_counted (Collect d) w) \<le> max_scroll_attempts"
    by (rule get_chart_counted_bound)
next
  assume a: "completes (scroll_down d 150) \<and> completes (wait_presence_of_element d 20 JqxGrid) \<and>
    completes (extract_grid_data d)"
  obtain u w1 where s1: "scroll_down d 150 w = (Inr u, w1)"
    using a returns_cases unfolding completes_def by blast
  obtain g w2 where s2: "wait_presence_of_element d 20 JqxGrid w1 = (Inr g, w2)"
    using a returns_cases unfolding completes_def by blast
  obtain hs0 rows0 w3 where s3: "extract_grid_data d w2 = (Inr (hs0, rows0), w3)"
    using a returns_cases[of "extract_grid_data d w2"] unfolding completes_def by auto
  have "returns (scroll_loop (Tools d) 0 hs0 rows0 w3)"
    using a by (intro scroll_loop_returns)
      (simp_all add: Tools_simps get_scrollbar_thumb_x_returns drag_scrollbar_returns completes_def)
  then obtain hs data w4 where s4: "scroll_loop (Tools d) 0 hs0 rows0 w3 = (Inr (hs, data), w4)"
    using returns_cases[of "scroll_loop (Tools d) 0 hs0 rows0 w3"] by auto
  show "returns (get_chart (Collect d) w)"
    using s1 s2 s3 s4
    by (simp add: get_chart_def Collect_simps Tools_simps io_bind_apply io_return_apply returns_def
        del: scroll_loop.simps)
qed

theorem get_chart_bounded_witness:
  "snd (get_chart_counted (Collect (fake_driver endless_pages)) start) \<le> max_scroll_attempts \<and>
   returns (get_chart (Collect (fake_driver endless_pages)) start)"
  using get_chart_bounded[of "fake_driver endless_pages" start] fake_driver_completes
  by blast

text \<open>
  The bound is reached: on the grid that shows a new date after every drag, with the thumb
  moving every time, the body is entered exactly 50 times.
\<close>

lemma endless_run_reaches_bound:
  "snd (get_chart_counted (Collect (fake_driver endless_pages)) start) = 50"
  by code_simp

lemma scroll_body_distinct:
  assumes "distinct_scans d" and "distinct hs"
      and "scroll_body (Tools d) hs rows w = (Inr (Some (hs', rows')), w')"
  shows "distinct hs'"
proof -
  obtain nh nd w0 w1 where
    scan: "extract_grid_data d w0 = (Inr (nh, nd), w1)" and
    hs': "hs' = hs @ new_date_columns looks_like_date nh hs"
    using scroll_body_headers[OF assms(3)] by (auto simp: Tools_simps)
  have "distinct nh"
    using assms(1) scan unfolding distinct_scans_def by blast
  then show ?thesis
    unfolding hs' by (rule distinct_new_date_columns[OF assms(2)])
qed

text \<open>
  The scans have to be snapshots of the grid as the data model has them, their headers
  distinct: the first scan seeds the header list as it is, so a grid with two header cells
  of the same text, which is no such snapshot, gives a header list that repeats a string.
\<close>

lemma twin_headers_repeat:
  "fst (get_chart (Collect (fake_driver twin_header_pages)) start)
     = Inr ([''Metric'', ''Metric'', ''2023-01-01''], [[''Revenue'', '''', ''100'']]) \<and>
   \<not> distinct [''Metric'', ''Metric'', ''2023-01-01'']"
  by code_simp

text \<open>
  C2. For any sequence of scans of the grid, each a snapshot whose header list repeats no
  string, the header list of the table \<^verbatim>\<open>get_chart\<close> accumulates never contains the same
  string twice: the seed is the header list of the first scan, and every pass of the loop
  body appends only date-like headers that are not yet present (lemmas \<open>scroll_body_headers\<close>
  and \<open>scroll_body_distinct\<close>).
\<close>

theorem get_chart_headers_distinct:
  assumes "distinct_scans d"
      and "get_chart (Collect d) w = (Inr (headers, rows), w')"
  shows "distinct headers"
proof -
  obtain hs0 rows0 w0 w1 data where
    scan: "extract_grid_data d w0 = (Inr (hs0, rows0), w1)" and
    loop: "scroll_loop (Tools d) 0 hs0 rows0 w1 = (Inr (headers, data), w')"
    using get_chart_result[OF assms(2)] by (auto simp: Collect_simps Tools_simps)
  have seed: "distinct hs0"
    using assms(1) scan by (auto simp: distinct_scans_def)
  show ?thesis
    by (rule scroll_loop_invariant[where P = "\<lambda>hs rows. distinct hs", OF _ seed loop])
       (rule scroll_body_distinct[OF assms(1)])
qed

lemma scenario_distinct_scans: "distinct_scans (fake_driver scenario_pages)"
proof -
  have "distinct (map strip (page_headers (scenario_pages n)))" for n
  proof (cases "n = 0")
    case True
    then show ?thesis by (simp add: scenario_pages_def pages_of_def) code_simp
  next
    case False
    then have "min n (Suc 0) = Suc 0" by simp
    then show ?thesis by (simp add: scenario_pages_def pages_of_def) code_simp
  qed
  then show ?thesis
    by (auto simp: distinct_scans_def fake_driver_extract_grid_data)
qed

lemma scenario_get_chart:
  "get_chart (Collect (fake_driver scenario_pages)) start
     = (Inr ([''Metric'', ''2023-01-01'', ''2023-04-01''], [[''Revenue'', ''100'', ''110'']]),
        \<lparr> drags = 2, clicked = [] \<rparr>)"
  by code_simp

theorem get_chart_headers_distinct_witness:
  "distinct [''Metric'', ''2023-01-01'', ''2023-04-01'']"
  by (rule get_chart_headers_distinct[OF scenario_distinct_scans scenario_get_chart])

text \<open>
  C3, as the claim states it, fails: the width of the rows is only restored after the loop.
  When a later scan shows fewer rows than the table has, the pass extends the rows it
  shows and leaves the others short: here the second row has two cells under three headers
  when the pass ends.
\<close>

theorem short_row_counterexample:
  "fst (extract_grid_data (fake_driver shrinking_pages) start)
     = Inr ([''Metric'', ''2023-01-01''], [[''Revenue'', ''100''], [''Cost'', ''50'']]) \<and>
   fst (scroll_body (Tools (fake_driver shrinking_pages))
          [''Metric'', ''2023-01-01''] [[''Revenue'', ''100''], [''Cost'', ''50'']] start)
     = Inr (Some ([''Metric'', ''2023-01-01'', ''2023-04-01''],
                  [[''Revenue'', ''100'', ''110''], [''Cost'', ''50'']])) \<and>
   \<not> rows_match_headers [''Metric'', ''2023-01-01'', ''2023-04-01'']
         [[''Revenue'', ''100'', ''110''], [''Cost'', ''50'']]"
  by code_simp

text \<open>
  C3, amended. In the table \<^verbatim>\<open>get_chart\<close> returns every row has exactly as many cells as
  there are headers: the rows are those the loop has accumulated (lines 299 to 361), in
  their order, a row with fewer cells than there are headers filled up with empty strings
  and any other row cut to that number of cells.
\<close>

theorem get_chart_rows_match_headers:
  assumes "get_chart self w = (Inr (headers, rows), w')"
  shows "rows_match_headers headers rows \<and>
         (\<exists>data. get_chart_accumulated self w = (Inr (headers, data), w') \<and>
            rows = map (\<lambda>row. if length row < length headers
                               then row @ replicate (length headers - length row) []
                               else take (length headers) row) data)"
proof -
  obtain data where acc: "get_chart_accumulated self w = (Inr (headers, data), w')"
    and rows: "rows = map (normalize_row (length headers)) data"
    using assms unfolding get_chart_normalizes
    by (auto split: prod.splits sum.splits)
  have "rows_match_headers headers rows"
    by (simp add: rows rows_match_headers_def list_all_iff length_normalize_row)
  moreover have "rows = map (\<lambda>row. if length row < length headers
                               then row @ replicate (length headers - length row) []
                               else take (length headers) row) data"
    unfolding rows by (rule map_cong) (simp_all add: normalize_row_cases)
  ultimately show ?thesis
    using acc by blast
qed

lemma shrinking_get_chart:
  "get_chart (Collect (fake_driver shrinking_pages)) start
     = (Inr ([''Metric'', ''2023-01-01'', ''2023-04-01''],
             [[''Revenue'', ''100'', ''110''], [''Cost'', ''50'', '''']]),
        \<lparr> drags = 2, clicked = [] \<rparr>)"
  by code_simp

lemma shrinking_get_chart_accumulated:
  "get_chart_accumulated (Collect (fake_driver shrinking_pages)) start
     = (Inr ([''Metric'', ''2023-01-01'', ''2023-04-01''],
             [[''Revenue'', ''100'', ''110''], [''Cost'', ''50'']]),
        \<lparr> drags = 2, clicked = [] \<rparr>)"
  by code_simp

theorem get_chart_rows_match_headers_witness:
  "rows_match_headers [''Metric'', ''2023-01-01'', ''2023-04-01'']
     [[''Revenue'', ''100'', ''110''], [''Cost'', ''50'', '''']] \<and>
   (\<exists>data. get_chart_accumulated (Collect (fake_driver shrinking_pages)) start
              = (Inr ([''Metric'', ''2023-01-01'', ''2023-04-01''], data),
                 \<lparr> drags = 2, clicked = [] \<rparr>) \<and>
      [[''Revenue'', ''100'', ''110''], [''Cost'', ''50'', '''']]
        = map (\<lambda>row. if length row < length [''Metric'', ''2023-01-01'', ''2023-04-01'']
                 then row @ replicate
                        (length [''Metric'', ''2023-01-01'', ''2023-04-01''] - length row) []
                 else take (length [''Metric'', ''2023-01-01'', ''2023-04-01'']) row) data)"
  by (rule get_chart_rows_match_headers[OF shrinking_get_chart])


section \<open>Claims about exceptions\<close>

lemma io_try_returns:
  assumes "\<And>e w'. returns (handler e w')"
  shows "returns (io_try body handler w)"
  using assms
  by (cases "body w"; cases "fst (body w)") (auto simp: io_try_apply returns_def)

lemma close_ad_overlay_returns: "returns (close_ad_overlay d w)"
  unfolding close_ad_overlay_def by (rule io_try_returns) (simp add: io_return_apply returns_def)

lemma wait_for_overlay_to_disappear_returns: "returns (wait_for_overlay_to_disappear d n w)"
  unfolding wait_for_overlay_to_disappear_def
  by (rule io_try_returns) (simp add: io_return_apply returns_def)

lemma remove_ad_overlay_raises:
  "execute_script d RemoveOverlays [] w = (Inl e, w') \<Longrightarrow> remove_ad_overlay d w = (Inl e, w')"
  by (simp add: remove_ad_overlay_def)

lemma ensure_ads_removed_raises:
  assumes "close_ad_overlay d w = (r, w1)"
      and "execute_script d RemoveOverlays [] w1 = (Inl e, w2)"
  shows "ensure_ads_removed d w = (Inl e, w2)"
proof -
  obtain u where "r = Inr u"
    using returns_cases[OF close_ad_overlay_returns[of d w]] assms(1) by auto
  with assms show ?thesis
    by (simp add: ensure_ads_removed_def io_bind_apply remove_ad_overlay_def)
qed

text \<open>
  C6. \<^verbatim>\<open>close_ad_overlay\<close> and \<^verbatim>\<open>wait_for_overlay_to_disappear\<close> catch every exception (the two
  lemmas above), but \<^verbatim>\<open>remove_ad_overlay\<close> has no handler: on a session whose script call
  raises, it raises, and so does \<^verbatim>\<open>ensure_ads_removed\<close>. The exception stops in \<^verbatim>\<open>Tools.click\<close>,
  which then gives up the click: no tab is clicked.
\<close>

theorem remove_ad_overlay_propagates:
  "fst (close_ad_overlay script_failing_driver start) = Inr () \<and>
   fst (remove_ad_overlay script_failing_driver start) = Inl JavascriptException \<and>
   fst (ensure_ads_removed script_failing_driver start) = Inl JavascriptException \<and>
   click script_failing_driver ''Financials'' False start = (Inr (), start) \<and>
   click (fake_driver scenario_pages) ''Financials'' False start
     = (Inr (), \<lparr> drags = 0, clicked = [''Financials''] \<rparr>)"
  by code_simp

lemma employee_rows_skip:
  assumes "element_find_elements d row TableCells w = (Inr cols, w1)" and "length cols \<noteq> 2"
  shows "employee_rows d (row # rows) data w = employee_rows d rows data w1"
  using assms by (simp add: io_bind_apply)

lemma employee_rows_bad_year:
  assumes "element_find_elements d row TableCells w = (Inr [c0, c1], w1)"
      and "element_text d c0 w1 = (Inr t0, w2)"
      and "element_text d c1 w2 = (Inr t1, w3)"
      and "py_int (strip t0) = Inl ValueError"
  shows "employee_rows d (row # rows) data w = (Inl ValueError, w3)"
  using assms by (simp add: io_bind_apply io_lift_apply Let_def)

text \<open>
  C10. \<^verbatim>\<open>extract_employee_table_to_df\<close> never raises. A table row that does not have exactly
  two cells is passed over. When anything inside the \<^verbatim>\<open>try\<close> raises, for one a \<^verbatim>\<open>Year\<close> cell
  that \<^verbatim>\<open>int\<close> does not read, the method returns the empty data frame, whatever rows were
  read before.
\<close>

theorem extract_employee_table_never_raises:
  "returns (extract_employee_table_to_df d w) \<and>
   (\<forall>row rows data cols w1.
      element_find_elements d row TableCells w = (Inr cols, w1) \<and> length cols \<noteq> 2 \<longrightarrow>
      employee_rows d (row # rows) data w = employee_rows d rows data w1) \<and>
   (\<forall>row rows data c0 c1 t0 t1 w1 w2 w3.
      element_find_elements d row TableCells w = (Inr [c0, c1], w1) \<and>
      element_text d c0 w1 = (Inr t0, w2) \<and> element_text d c1 w2 = (Inr t1, w3) \<and>
      py_int (strip t0) = Inl ValueError \<longrightarrow>
      employee_rows d (row # rows) data w = (Inl ValueError, w3)) \<and>
   (\<forall>e w'.
      io_bind (find_elements d EmployeeTableRows) (\<lambda>rows. employee_rows d rows []) w = (Inl e, w')
      \<longrightarrow> extract_employee_table_to_df d w = (Inr [], w'))"
proof (intro conjI allI impI)
  show "returns (extract_employee_table_to_df d w)"
    unfolding extract_employee_table_to_df_def
    by (rule io_try_returns) (simp add: io_return_apply returns_def)
next
  fix row rows data cols w1
  assume "element_find_elements d row TableCells w = (Inr cols, w1) \<and> length cols \<noteq> 2"
  then have a: "element_find_elements d row TableCells w = (Inr cols, w1)"
    and b: "length cols \<noteq> 2" by simp_all
  show "employee_rows d (row # rows) data w = employee_rows d rows data w1"
    by (rule employee_rows_skip[OF a b])
next
  fix row rows data c0 c1 t0 t1 w1 w2 w3
  assume "element_find_elements d row TableCells w = (Inr [c0, c1], w1) \<and>
      element_text d c0 w1 = (Inr t0, w2) \<and> element_text d c1 w2 = (Inr t1, w3) \<and>
      py_int (strip t0) = Inl ValueError"
  then have a: "element_find_elements d row TableCells w = (Inr [c0, c1], w1)"
    and b: "element_text d c0 w1 = (Inr t0, w2)" and c: "element_text d c1 w2 = (Inr t1, w3)"
    and e: "py_int (strip t0) = Inl ValueError" by simp_all
  show "employee_rows d (row # rows) data w = (Inl ValueError, w3)"
    by (rule employee_rows_bad_year[OF a b c e])
next
  fix e w'
  assume "io_bind (find_elements d EmployeeTableRows) (\<lambda>rows. employee_rows d rows []) w
            = (Inl e, w')"
  then show "extract_employee_table_to_df d w = (Inr [], w')"
    by (simp add: extract_employee_table_to_df_def io_try_apply io_return_apply)
qed

lemma bad_year_body:
  "io_bind (find_elements (fake_driver bad_year_pages) EmployeeTableRows)
     (\<lambda>rows. employee_rows (fake_driver bad_year_pages) rows []) start = (Inl ValueError, start)"
  by code_simp

lemma bad_year_first_row:
  "employee_rows (fake_driver bad_year_pages) [TableRow 0] [] start = (Inr [(2021, 500)], start)"
  by code_simp

theorem extract_employee_table_never_raises_witness:
  "returns (extract_employee_table_to_df (fake_driver bad_year_pages) start) \<and>
   extract_employee_table_to_df (fake_driver bad_year_pages) start = (Inr [], start) \<and>
   employee_rows (fake_driver bad_year_pages) [TableRow 0] [] start = (Inr [(2021, 500)], start)"
proof -
  note inst = extract_employee_table_never_raises[of "fake_driver bad_year_pages" start]
  have "returns (extract_employee_table_to_df (fake_driver bad_year_pages) start)"
    using inst by (rule conjunct1)
  moreover have "extract_employee_table_to_df (fake_driver bad_year_pages) start = (Inr [], start)"
    using inst[THEN conjunct2, THEN conjunct2, THEN conjunct2, rule_format, OF bad_year_body] .
  ultimately show ?thesis
    using bad_year_first_row by simp
qed

lemma chart_loop_raises:
  "process_chart self pd combined_df chart_title w = (Inl e, w') \<Longrightarrow>
   chart_loop self pd (chart_title # rest) combined_df w = (Inl e, w')"
  by (simp add: io_bind_apply)

lemma collect_stock_info_raises:
  assumes "t_search (tools self) stock_name w = (Inr u, w1)"
      and "chart_loop self pd (charts self) None w1 = (Inl e, w2)"
  shows "collect_stock_info self pd stock_name w = (Inl e, w2)"
  using assms by (simp add: collect_stock_info_def io_bind_apply)

lemma process_chart_raises:
  assumes "to_lower chart_title \<noteq> ''other metrics''"
      and "t_click (tools self) chart_title False w = (Inr u1, w1)"
      and "t_quartely (tools self) w1 = (Inr u2, w2)"
      and "get_chart self w2 = (Inl e, w3)"
  shows "process_chart self pd combined_df chart_title w = (Inl e, w3)"
  using assms by (simp add: process_chart_def io_bind_apply)

text \<open>
  C5. No statement of the panel loop stands inside a \<^verbatim>\<open>try\<close>: an exception of \<^verbatim>\<open>get_chart\<close>
  leaves the loop and \<^verbatim>\<open>collect_stock_info\<close> (the three lemmas above). On a session where the
  grid never appears, the wait in \<^verbatim>\<open>get_chart\<close> raises on the first panel; the run ends with
  that exception after the click on the first tab, no other tab is visited and nothing is
  saved. On the same pages with the grid present all five tabs are visited.
\<close>

theorem grid_timeout_aborts_collection:
  "fst (get_chart (Collect no_grid_driver) start) = Inl TimeoutException \<and>
   collect_stock_info (Collect no_grid_driver) decimal_pandas ''Nvidia'' start
     = (Inl TimeoutException, \<lparr> drags = 0, clicked = [''Financials''] \<rparr>) \<and>
   clicked (snd (collect_stock_info (Collect (fake_driver scenario_pages)) decimal_pandas
                   ''Nvidia'' start))
     = [''Financials'', ''Balance Sheet'', ''Cash Flow Statement'', ''Key Financial Ratios'',
        ''Other Metrics'', ''Employee Count'']"
  by code_simp

section \<open>Claims about the tables\<close>

lemma strip_symbols_Str:
  "strip_symbols (Str s) = Str (filter (\<lambda>x. x \<notin> {CHR ''$'', CHR '','', CHR ''%''}) s)"
proof -
  have "(\<lambda>x. x \<noteq> CHR ''%'' \<and> x \<noteq> CHR '','' \<and> x \<noteq> CHR ''$'')
          = (\<lambda>x. x \<notin> {CHR ''$'', CHR '','', CHR ''%''})"
    by auto
  then show ?thesis
    by (simp add: strip_symbols_def remove_char_def conj_assoc)
qed

lemma clean_column_nth:
  assumes "i < length col"
  shows "clean_column pd col ! i = strip_symbols (replace_dash (col ! i)) \<or>
         clean_column pd col ! i
           = cell_of_parsed (parse_cell pd (strip_symbols (replace_dash (col ! i)))) \<and>
           parse_cell pd (strip_symbols (replace_dash (col ! i))) \<noteq> Unparseable"
proof (cases "list_ex (\<lambda>c. parse_cell pd c = Unparseable) (map strip_symbols (map replace_dash col))")
  case True
  then show ?thesis
    using assms by (simp add: clean_column_def to_numeric_ignore_def)
next
  case False
  then have "parse_cell pd (strip_symbols (replace_dash (col ! i))) \<noteq> Unparseable"
    using assms by (auto simp: list_ex_iff)
  with False show ?thesis
    using assms by (simp add: clean_column_def to_numeric_ignore_def)
qed

lemma final_clean_cell_Str:
  assumes "s \<noteq> ''-''"
  shows "final_clean_cell pd (Str s) =
     (case to_numeric_str pd (filter (\<lambda>x. x \<notin> {CHR ''$'', CHR '','', CHR ''%''}) s) of
        Parsed n \<Rightarrow> Num n | ParsedNaN \<Rightarrow> Num (num_of_int pd 0)
      | Unparseable \<Rightarrow> Num (num_of_int pd 0))"
  using assms
  by (simp add: final_clean_cell_def replace_dash_def astype_str_def split: parsed.splits)

lemma final_clean_cell_Num:
  "reads_back pd n \<Longrightarrow> final_clean_cell pd (Num n) = Num n"
  by (simp add: final_clean_cell_def replace_dash_def astype_str_def reads_back_def)

lemma show_int_0: "show_int 0 = ''0''"
  by code_simp

lemma final_clean_cell_PyInt_0:
  "to_numeric_str pd ''0'' = Parsed n \<Longrightarrow> final_clean_cell pd (PyInt 0) = Num n"
  by (simp add: final_clean_cell_def replace_dash_def astype_str_def show_int_0)

lemma final_clean_cell_NaN:
  "to_numeric_str pd ''nan'' = ParsedNaN \<Longrightarrow> final_clean_cell pd NaN = Num (num_of_int pd 0)"
  by (simp add: final_clean_cell_def replace_dash_def astype_str_def)

lemma cleaned_string_cell:
  assumes "i < length col" and "col ! i = Str s" and "s \<noteq> ''-''"
      and "filter (\<lambda>x. x \<notin> {CHR ''$'', CHR '','', CHR ''%''}) s \<noteq> ''-''"
  shows
    "to_numeric_str pd (filter (\<lambda>x. x \<notin> {CHR ''$'', CHR '','', CHR ''%''}) s) = Parsed a \<Longrightarrow>
     reads_back pd a \<Longrightarrow> final_clean_column pd (clean_column pd col) ! i = Num a"
    "to_numeric_str pd (filter (\<lambda>x. x \<notin> {CHR ''$'', CHR '','', CHR ''%''}) s) = Unparseable \<Longrightarrow>
     final_clean_column pd (clean_column pd col) ! i = Num (num_of_int pd 0)"
proof -
  let ?s' = "filter (\<lambda>x. x \<notin> {CHR ''$'', CHR '','', CHR ''%''}) s"
  have len: "i < length (clean_column pd col)"
    using assms(1) by (simp add: clean_column_def to_numeric_ignore_def)
  have c': "strip_symbols (replace_dash (col ! i)) = Str ?s'"
    using assms(2,3) by (simp add: replace_dash_def strip_symbols_Str)
  have idem: "filter (\<lambda>x. x \<notin> {CHR ''$'', CHR '','', CHR ''%''}) ?s' = ?s'"
    by simp
  have str: "final_clean_cell pd (Str ?s') =
     (case to_numeric_str pd ?s' of
        Parsed n \<Rightarrow> Num n | ParsedNaN \<Rightarrow> Num (num_of_int pd 0)
      | Unparseable \<Rightarrow> Num (num_of_int pd 0))"
    using final_clean_cell_Str[OF assms(4), of pd] by (simp only: idem)
  note alt = clean_column_nth[OF assms(1), of pd, unfolded c']
  {
    assume p: "to_numeric_str pd ?s' = Parsed a" and rb: "reads_back pd a"
    from alt have "final_clean_cell pd (clean_column pd col ! i) = Num a"
    proof
      assume "clean_column pd col ! i = Str ?s'"
      then show ?thesis using str p by simp
    next
      assume "clean_column pd col ! i = cell_of_parsed (parse_cell pd (Str ?s')) \<and>
              parse_cell pd (Str ?s') \<noteq> Unparseable"
      then have "clean_column pd col ! i = Num a"
        using p by (simp add: parse_cell_def cell_of_parsed_def)
      then show ?thesis using final_clean_cell_Num[OF rb] by simp
    qed
    then show "final_clean_column pd (clean_column pd col) ! i = Num a"
      using len by (simp add: final_clean_column_def)
  }
  {
    assume p: "to_numeric_str pd ?s' = Unparseable"
    from alt have "clean_column pd col ! i = Str ?s'"
      using p by (auto simp: parse_cell_def)
    then have "final_clean_cell pd (clean_column pd col ! i) = Num (num_of_int pd 0)"
      using str p by simp
    then show "final_clean_column pd (clean_column pd col) ! i = Num (num_of_int pd 0)"
      using len by (simp add: final_clean_column_def)
  }
qed

lemma cleaned_dash_cell:
  assumes "i < length col" and "col ! i = Str ''-''"
      and "to_numeric_str pd ''0'' = Parsed (num_of_int pd 0)"
      and "reads_back pd (num_of_int pd 0)"
  shows "final_clean_column pd (clean_column pd col) ! i = Num (num_of_int pd 0)"
proof -
  have len: "i < length (clean_column pd col)"
    using assms(1) by (simp add: clean_column_def to_numeric_ignore_def)
  have c': "strip_symbols (replace_dash (col ! i)) = PyInt 0"
    using assms(2) by (simp add: replace_dash_def strip_symbols_def)
  from clean_column_nth[OF assms(1), of pd, unfolded c']
  have "final_clean_cell pd (clean_column pd col ! i) = Num (num_of_int pd 0)"
  proof
    assume "clean_column pd col ! i = PyInt 0"
    then show ?thesis using final_clean_cell_PyInt_0[OF assms(3)] by simp
  next
    assume "clean_column pd col ! i = cell_of_parsed (parse_cell pd (PyInt 0)) \<and>
            parse_cell pd (PyInt 0) \<noteq> Unparseable"
    then have "clean_column pd col ! i = Num (num_of_int pd 0)"
      by (simp add: parse_cell_def cell_of_parsed_def)
    then show ?thesis using final_clean_cell_Num[OF assms(4)] by simp
  qed
  then show ?thesis
    using len by (simp add: final_clean_column_def)
qed

lemma employee_rows_not_available:
  assumes "element_find_elements d row TableCells w = (Inr [c0, c1], w1)"
      and "element_text d c0 w1 = (Inr t0, w2)"
      and "element_text d c1 w2 = (Inr t1, w3)"
      and "py_int (strip t0) = Inr y"
      and "remove_char CHR '','' (strip t1) = ''N/A''"
  shows "employee_rows d (row # rows) data w = employee_rows d rows (data @ [(y, 0)]) w3"
  using assms by (simp add: io_bind_apply io_lift_apply io_return_apply Let_def)

lemma clean_column_nth_exact:
  assumes "i < length col"
  shows "clean_column pd col ! i =
     (if column_parses pd col
      then cell_of_parsed (parse_cell pd (strip_symbols (replace_dash (col ! i))))
      else strip_symbols (replace_dash (col ! i)))"
  using assms by (simp add: clean_column_def to_numeric_ignore_def column_parses_def)

lemma first_pass_string_cell:
  assumes "i < length col" and "col ! i = Str s" and "s \<noteq> ''-''"
  shows "clean_column pd col ! i =
     (if column_parses pd col
      then cell_of_parsed
             (to_numeric_str pd (filter (\<lambda>x. x \<notin> {CHR ''$'', CHR '','', CHR ''%''}) s))
      else Str (filter (\<lambda>x. x \<notin> {CHR ''$'', CHR '','', CHR ''%''}) s))"
  using assms(2,3)
  by (simp add: clean_column_nth_exact[OF assms(1)] replace_dash_def strip_symbols_Str
      parse_cell_def)

lemma first_pass_dash_cell:
  assumes "i < length col" and "col ! i = Str ''-''"
  shows "clean_column pd col ! i =
     (if column_parses pd col then Num (num_of_int pd 0) else PyInt 0)"
  using assms(2)
  by (simp add: clean_column_nth_exact[OF assms(1)] replace_dash_def strip_symbols_def
      parse_cell_def cell_of_parsed_def)

text \<open>
  C7. The first pass over a panel's table (lines 212 to 216) takes the cell \<^verbatim>\<open>-\<close> to 0 and
  removes every \<^verbatim>\<open>$\<close>, comma and \<^verbatim>\<open>%\<close> from a string cell; the column becomes numeric when
  pandas reads every cell of it, and stays as it is, with the stripped strings, otherwise.
  The pass over the merged table (lines 243 to 249) then yields a number for every cell and
  puts 0 where pandas cannot read the cell. So the cell \<^verbatim>\<open>$1,234.56\<close> becomes the number
  pandas reads from \<^verbatim>\<open>1234.56\<close>, the cell \<^verbatim>\<open>12%\<close> the number it reads from \<^verbatim>\<open>12\<close>, the cell
  \<^verbatim>\<open>-\<close> becomes 0, and an employee count \<^verbatim>\<open>N/A\<close> becomes 0. Of pandas it is assumed that the
  numbers in question print to strings that read back as themselves, and that \<^verbatim>\<open>0\<close> reads
  as 0.
\<close>

theorem cell_cleaning:
  assumes "i < length col"
      and "to_numeric_str pd ''0'' = Parsed (num_of_int pd 0)"
      and "reads_back pd (num_of_int pd 0)"
  shows
    "(col ! i = Str ''-'' \<longrightarrow>
        clean_column pd col ! i
          = (if column_parses pd col then Num (num_of_int pd 0) else PyInt 0)) \<and>
     (\<forall>a. col ! i = Str ''$1,234.56'' \<and> to_numeric_str pd ''1234.56'' = Parsed a
        \<longrightarrow> clean_column pd col ! i
              = (if column_parses pd col then Num a else Str ''1234.56'')) \<and>
     (\<forall>b. col ! i = Str ''12%'' \<and> to_numeric_str pd ''12'' = Parsed b
        \<longrightarrow> clean_column pd col ! i = (if column_parses pd col then Num b else Str ''12'')) \<and>
     (\<forall>s. col ! i = Str s \<and> s \<noteq> ''-''
        \<longrightarrow> clean_column pd col ! i
              = (if column_parses pd col
                 then cell_of_parsed (to_numeric_str pd
                        (filter (\<lambda>x. x \<notin> {CHR ''$'', CHR '','', CHR ''%''}) s))
                 else Str (filter (\<lambda>x. x \<notin> {CHR ''$'', CHR '','', CHR ''%''}) s))) \<and>
     (col ! i = Str ''-'' \<longrightarrow>
        final_clean_column pd (clean_column pd col) ! i = Num (num_of_int pd 0)) \<and>
     (\<forall>a. col ! i = Str ''$1,234.56'' \<and> to_numeric_str pd ''1234.56'' = Parsed a \<and> reads_back pd a
        \<longrightarrow> final_clean_column pd (clean_column pd col) ! i = Num a) \<and>
     (\<forall>b. col ! i = Str ''12%'' \<and> to_numeric_str pd ''12'' = Parsed b \<and> reads_back pd b
        \<longrightarrow> final_clean_column pd (clean_column pd col) ! i = Num b) \<and>
     (\<forall>s. col ! i = Str s \<and> s \<noteq> ''-'' \<and>
          filter (\<lambda>x. x \<notin> {CHR ''$'', CHR '','', CHR ''%''}) s \<noteq> ''-'' \<and>
          to_numeric_str pd (filter (\<lambda>x. x \<notin> {CHR ''$'', CHR '','', CHR ''%''}) s) = Unparseable
        \<longrightarrow> final_clean_column pd (clean_column pd col) ! i = Num (num_of_int pd 0)) \<and>
     (\<forall>(d :: ('e, 'w) webdriver) row rows data c0 c1 t0 t1 y w w1 w2 w3.
        element_find_elements d row TableCells w = (Inr [c0, c1], w1) \<and>
        element_text d c0 w1 = (Inr t0, w2) \<and> element_text d c1 w2 = (Inr t1, w3) \<and>
        py_int (strip t0) = Inr y \<and> remove_char CHR '','' (strip t1) = ''N/A''
        \<longrightarrow> employee_rows d (row # rows) data w = employee_rows d rows (data @ [(y, 0)]) w3)"
proof -
  have f1: "filter (\<lambda>x. x \<notin> {CHR ''$'', CHR '','', CHR ''%''}) ''$1,234.56'' = ''1234.56''"
    and f2: "filter (\<lambda>x. x \<notin> {CHR ''$'', CHR '','', CHR ''%''}) ''12%'' = ''12''"
    by simp_all
  have p1: "col ! i = Str ''-'' \<longrightarrow>
        clean_column pd col ! i
          = (if column_parses pd col then Num (num_of_int pd 0) else PyInt 0)"
    using first_pass_dash_cell[OF assms(1)] by blast
  have p4: "clean_column pd col ! i
              = (if column_parses pd col
                 then cell_of_parsed (to_numeric_str pd
                        (filter (\<lambda>x. x \<notin> {CHR ''$'', CHR '','', CHR ''%''}) s))
                 else Str (filter (\<lambda>x. x \<notin> {CHR ''$'', CHR '','', CHR ''%''}) s))"
    if "col ! i = Str s \<and> s \<noteq> ''-''" for s
    using first_pass_string_cell[OF assms(1), of s pd] that by blast
  have p2: "clean_column pd col ! i = (if column_parses pd col then Num a else Str ''1234.56'')"
    if "col ! i = Str ''$1,234.56'' \<and> to_numeric_str pd ''1234.56'' = Parsed a" for a
    using p4[of "''$1,234.56''"] that by (simp add: cell_of_parsed_def)
  have p3: "clean_column pd col ! i = (if column_parses pd col then Num b else Str ''12'')"
    if "col ! i = Str ''12%'' \<and> to_numeric_str pd ''12'' = Parsed b" for b
    using p4[of "''12%''"] that by (simp add: cell_of_parsed_def)
  have q1: "col ! i = Str ''-'' \<longrightarrow>
        final_clean_column pd (clean_column pd col) ! i = Num (num_of_int pd 0)"
    using cleaned_dash_cell[OF assms(1) _ assms(2,3)] by blast
  have q2: "final_clean_column pd (clean_column pd col) ! i = Num a"
    if "col ! i = Str ''$1,234.56'' \<and> to_numeric_str pd ''1234.56'' = Parsed a \<and> reads_back pd a"
    for a
    using cleaned_string_cell(1)[OF assms(1), of "''$1,234.56''" pd a] that by (simp add: f1)
  have q3: "final_clean_column pd (clean_column pd col) ! i = Num b"
    if "col ! i = Str ''12%'' \<and> to_numeric_str pd ''12'' = Parsed b \<and> reads_back pd b" for b
    using cleaned_string_cell(1)[OF assms(1), of "''12%''" pd b] that by (simp add: f2)
  have q4: "final_clean_column pd (clean_column pd col) ! i = Num (num_of_int pd 0)"
    if "col ! i = Str s \<and> s \<noteq> ''-'' \<and>
          filter (\<lambda>x. x \<notin> {CHR ''$'', CHR '','', CHR ''%''}) s \<noteq> ''-'' \<and>
          to_numeric_str pd (filter (\<lambda>x. x \<notin> {CHR ''$'', CHR '','', CHR ''%''}) s) = Unparseable"
    for s
    using cleaned_string_cell(2)[OF assms(1), of s pd] that by blast
  have e: "employee_rows d (row # rows) data w = employee_rows d rows (data @ [(y, 0)]) w3"
    if "element_find_elements d row TableCells w = (Inr [c0, c1], w1) \<and>
        element_text d c0 w1 = (Inr t0, w2) \<and> element_text d c1 w2 = (Inr t1, w3) \<and>
        py_int (strip t0) = Inr y \<and> remove_char CHR '','' (strip t1) = ''N/A''"
    for d :: "('e, 'w) webdriver" and row rows data c0 c1 t0 t1 y w w1 w2 w3
  proof -
    from that have a: "element_find_elements d row TableCells w = (Inr [c0, c1], w1)"
      and b: "element_text d c0 w1 = (Inr t0, w2)" and c: "element_text d c1 w2 = (Inr t1, w3)"
      and e: "py_int (strip t0) = Inr y" and f: "remove_char CHR '','' (strip t1) = ''N/A''"
      by simp_all
    show ?thesis
      by (rule employee_rows_not_available[OF a b c e f])
  qed
  show ?thesis
    by (intro conjI allI impI;
        (erule p1[rule_format] | erule p2 | erule p3 | erule p4 | erule q1[rule_format]
          | erule q2 | erule q3 | erule q4 | erule e))
qed

lemma print_decimal_examples:
  "print_decimal (123456, 2) = ''1234.56''" "print_decimal (12, 0) = ''12.0''"
  "print_decimal (0, 0) = ''0.0''"
  by (simp_all add: print_decimal_def Let_def) code_simp+

lemma decimal_pandas_facts:
  "to_numeric_str decimal_pandas ''0'' = Parsed (num_of_int decimal_pandas 0)"
  "reads_back decimal_pandas (num_of_int decimal_pandas 0)"
  "to_numeric_str decimal_pandas ''1234.56'' = Parsed (123456, 2)"
  "reads_back decimal_pandas (123456, 2)"
  "to_numeric_str decimal_pandas ''12'' = Parsed (12, 0)"
  "reads_back decimal_pandas (12, 0)"
  "to_numeric_str decimal_pandas ''n/a'' = Unparseable"
  by (simp_all add: reads_back_def decimal_pandas_def print_decimal_examples parse_decimal_def
      digits_value_def digit_value_def is_digit_def Let_def)

lemma decimal_values:
  "decimal_value (123456, 2) = 1234.56" "decimal_value (12, 0) = 12" "decimal_value (0, 0) = 0"
  by (simp_all add: decimal_value_def)

lemma employee_pages_table:
  "fst (extract_employee_table_to_df (fake_driver employee_pages) start)
     = Inr [(2021, 500), (2020, 0), (2019, 1234)]"
  by code_simp

lemma decimal_column_parses:
  "column_parses decimal_pandas [Str ''$1,234.56'', Str ''12%'', Str ''-'']"
  "\<not> column_parses decimal_pandas [Str ''$1,234.56'', Str ''12%'', Str ''-'', Str ''n/a'']"
  by (simp_all add: column_parses_def replace_dash_def strip_symbols_def remove_char_def
      parse_cell_def decimal_pandas_def parse_decimal_def digits_value_def digit_value_def
      is_digit_def Let_def)

theorem cell_cleaning_witness:
  "clean_column decimal_pandas [Str ''$1,234.56'', Str ''12%'', Str ''-''] ! 0
     = Num (123456, 2) \<and>
   clean_column decimal_pandas [Str ''$1,234.56'', Str ''12%'', Str ''-''] ! 2
     = Num (num_of_int decimal_pandas 0) \<and>
   clean_column decimal_pandas [Str ''$1,234.56'', Str ''12%'', Str ''-'', Str ''n/a''] ! 0
     = Str ''1234.56'' \<and>
   clean_column decimal_pandas [Str ''$1,234.56'', Str ''12%'', Str ''-'', Str ''n/a''] ! 1
     = Str ''12'' \<and>
   clean_column decimal_pandas [Str ''$1,234.56'', Str ''12%'', Str ''-'', Str ''n/a''] ! 2
     = PyInt 0 \<and>
   final_clean_column decimal_pandas
     (clean_column decimal_pandas [Str ''$1,234.56'', Str ''12%'', Str ''-'', Str ''n/a'']) ! 0
     = Num (123456, 2) \<and>
   final_clean_column decimal_pandas
     (clean_column decimal_pandas [Str ''$1,234.56'', Str ''12%'', Str ''-'', Str ''n/a'']) ! 1
     = Num (12, 0) \<and>
   final_clean_column decimal_pandas
     (clean_column decimal_pandas [Str ''$1,234.56'', Str ''12%'', Str ''-'', Str ''n/a'']) ! 2
     = Num (num_of_int decimal_pandas 0) \<and>
   final_clean_column decimal_pandas
     (clean_column decimal_pandas [Str ''$1,234.56'', Str ''12%'', Str ''-'', Str ''n/a'']) ! 3
     = Num (num_of_int decimal_pandas 0) \<and>
   decimal_value (123456, 2) = 1234.56 \<and> decimal_value (12, 0) = 12 \<and>
   decimal_value (num_of_int decimal_pandas 0) = 0 \<and>
   fst (extract_employee_table_to_df (fake_driver employee_pages) start)
     = Inr [(2021, 500), (2020, 0), (2019, 1234)]"
proof -
  let ?col = "[Str ''$1,234.56'', Str ''12%'', Str ''-'', Str ''n/a''] :: decimal cell list"
  let ?num = "[Str ''$1,234.56'', Str ''12%'', Str ''-''] :: decimal cell list"
  note f = decimal_pandas_facts
  have l: "0 < length ?col" "1 < length ?col" "2 < length ?col" "3 < length ?col"
    by simp_all
  have k: "0 < length ?num" "2 < length ?num"
    by simp_all
  have n: "?col ! 0 = Str ''$1,234.56''" "?col ! 1 = Str ''12%''" "?col ! 2 = Str ''-''"
    "?col ! 3 = Str ''n/a''"
    by simp_all
  have m: "?num ! 0 = Str ''$1,234.56''" "?num ! 2 = Str ''-''"
    by simp_all
  have g: "''n/a'' \<noteq> ''-''"
    "filter (\<lambda>x. x \<notin> {CHR ''$'', CHR '','', CHR ''%''}) ''n/a'' \<noteq> ''-''"
    "to_numeric_str decimal_pandas (filter (\<lambda>x. x \<notin> {CHR ''$'', CHR '','', CHR ''%''}) ''n/a'')
       = Unparseable"
    using f(7) by simp_all
  note i0 = cell_cleaning[OF l(1) f(1) f(2)] and i1 = cell_cleaning[OF l(2) f(1) f(2)]
    and i2 = cell_cleaning[OF l(3) f(1) f(2)] and i3 = cell_cleaning[OF l(4) f(1) f(2)]
    and j0 = cell_cleaning[OF k(1) f(1) f(2)] and j2 = cell_cleaning[OF k(2) f(1) f(2)]
  have a0: "clean_column decimal_pandas ?num ! 0 = Num (123456, 2)"
    using j0[THEN conjunct2, THEN conjunct1, rule_format, OF conjI[OF m(1) f(3)]]
    by (simp only: decimal_column_parses if_True)
  have a2: "clean_column decimal_pandas ?num ! 2 = Num (num_of_int decimal_pandas 0)"
    using j2[THEN conjunct1, rule_format, OF m(2)]
    by (simp only: decimal_column_parses if_True)
  have b0: "clean_column decimal_pandas ?col ! 0 = Str ''1234.56''"
    using i0[THEN conjunct2, THEN conjunct1, rule_format, OF conjI[OF n(1) f(3)]]
    by (simp only: decimal_column_parses if_False)
  have b1: "clean_column decimal_pandas ?col ! 1 = Str ''12''"
    using i1[THEN conjunct2, THEN conjunct2, THEN conjunct1, rule_format,
             OF conjI[OF n(2) f(5)]]
    by (simp only: decimal_column_parses if_False)
  have b2: "clean_column decimal_pandas ?col ! 2 = PyInt 0"
    using i2[THEN conjunct1, rule_format, OF n(3)]
    by (simp only: decimal_column_parses if_False)
  note rest = conjunct2[OF conjunct2[OF conjunct2[OF conjunct2]]]
  have c0: "final_clean_column decimal_pandas (clean_column decimal_pandas ?col) ! 0
              = Num (123456, 2)"
    by (rule i0[THEN rest, THEN conjunct2, THEN conjunct1, rule_format,
          OF conjI[OF n(1) conjI[OF f(3) f(4)]]])
  have c1: "final_clean_column decimal_pandas (clean_column decimal_pandas ?col) ! 1
              = Num (12, 0)"
    by (rule i1[THEN rest, THEN conjunct2, THEN conjunct2, THEN conjunct1,
          rule_format, OF conjI[OF n(2) conjI[OF f(5) f(6)]]])
  have c2: "final_clean_column decimal_pandas (clean_column decimal_pandas ?col) ! 2
              = Num (num_of_int decimal_pandas 0)"
    by (rule i2[THEN rest, THEN conjunct1, rule_format, OF n(3)])
  have c3: "final_clean_column decimal_pandas (clean_column decimal_pandas ?col) ! 3
              = Num (num_of_int decimal_pandas 0)"
    by (rule i3[THEN rest, THEN conjunct2, THEN conjunct2, THEN conjunct2,
          THEN conjunct1, rule_format, OF conjI[OF n(4) conjI[OF g(1) conjI[OF g(2) g(3)]]]])
  have v: "decimal_value (num_of_int decimal_pandas 0) = 0"
    by (simp add: decimal_pandas_def decimal_value_def)
  from a0 a2 b0 b1 b2 c0 c1 c2 c3 v employee_pages_table decimal_values show ?thesis
    by (intro conjI)
qed

text \<open>
  C4, as the claim states it, fails: before the merge on \<^verbatim>\<open>Year\<close> the code takes
  \<^verbatim>\<open>combined_df.iloc[1:]\<close>, so the first row of the unified table is gone. On a company page
  whose grids show the dates 2021-03-01 and 2021-09-01 and whose employee table has 500 for
  2021, the saved table has the row of 2021-09-01 only.
\<close>

theorem first_row_dropped_counterexample:
  "employee_merge decimal_pandas
     (Undated ([''financials_Revenue''],
               [(''2021-03-01'', [Num (100, 0)]), (''2021-09-01'', [Num (110, 0)])]))
     [(2021, 500)]
     = ([''financials_Revenue'', ''Employees''],
        [(Some (2021, 9, 1), [Num (110, 0), PyInt 500])]) \<and>
   fst (collect_stock_info (Collect (fake_driver employee_year_pages)) decimal_pandas
          ''Nvidia'' start)
     = Inr (Some ([''financials_Revenue'', ''balance_sheet_Revenue'',
                   ''cash_flow_statement_Revenue'', ''key_financial_ratios_Revenue'',
                   ''Employees''],
                  [(Some (2021, 9, 1),
                    [Num (110, 0), Num (110, 0), Num (110, 0), Num (110, 0), Num (500, 0)])]))"
  by code_simp

lemma employee_merge_rows:
  "set (snd (employee_merge pd c df)) =
     (\<Union>r\<in>set (tl (snd (to_datetime pd c))).
        if filter (\<lambda>ye. fst ye = year_of (fst r)) df = [] then {(fst r, snd r @ [NaN])}
        else (\<lambda>ye. (fst r, snd r @ [PyInt (snd ye)])) `
               set (filter (\<lambda>ye. fst ye = year_of (fst r)) df))"
  by (simp add: employee_merge_def Let_def map_tl[symmetric] image_Union
        del: set_filter cong: if_cong)

lemma employee_merge_row:
  assumes "(d, cells) \<in> set (tl (snd f))"
      and "to_datetime_str pd d = Some (y, m, dd)"
      and "(y, n) \<in> set df"
  shows "(Some (y, m, dd), cells @ [PyInt n]) \<in> set (snd (employee_merge pd (Undated f) df))"
proof -
  have a: "(Some (y, m, dd), cells) \<in> set (tl (snd (to_datetime pd (Undated f))))"
    using assms(1,2) by (force simp: to_datetime_def map_tl[symmetric])
  have b: "(y, n) \<in> set (filter (\<lambda>ye. fst ye = y) df)"
    using assms(3) by simp
  then have ne: "filter (\<lambda>ye. fst ye = y) df \<noteq> []"
    by (metis empty_iff empty_set)
  show ?thesis
    unfolding employee_merge_rows
    using a b ne by (force simp: year_of_def simp del: set_filter)
qed

lemma employee_merge_year:
  assumes "r \<in> set (snd (employee_merge pd c df))"
      and "year_of (fst r) = y"
      and "(y, n) \<in> set df"
      and "\<forall>ye\<in>set df. fst ye = y \<longrightarrow> snd ye = n"
  shows "last (snd r) = PyInt n"
proof -
  from assms(1) obtain r0 where
    r: "r \<in> (if filter (\<lambda>ye. fst ye = year_of (fst r0)) df = [] then {(fst r0, snd r0 @ [NaN])}
            else (\<lambda>ye. (fst r0, snd r0 @ [PyInt (snd ye)])) `
                   set (filter (\<lambda>ye. fst ye = year_of (fst r0)) df))"
    unfolding employee_merge_rows by blast
  have fr: "fst r = fst r0"
    using r by (auto split: if_splits)
  have "(y, n) \<in> set (filter (\<lambda>ye. fst ye = year_of (fst r0)) df)"
    using assms(2,3) fr by simp
  then have ne: "filter (\<lambda>ye. fst ye = year_of (fst r0)) df \<noteq> []"
    by (metis empty_iff empty_set)
  then obtain ye where "ye \<in> set df" "fst ye = y" "snd r = snd r0 @ [PyInt (snd ye)]"
    using r assms(2) fr by auto
  then show ?thesis
    using assms(4) by auto
qed

text \<open>
  C4, amended. For every unified table in which the dates 2021-03-01 and 2021-09-01 stand
  in rows after the first, and an employee table in which 2021 has the figure 500 (and no
  other), the merge keeps both rows and gives each the cell \<^verbatim>\<open>Employees\<close> = 500; every row of
  the result whose date lies in 2021 carries 500. Of pandas it is assumed that it reads the
  two strings as these dates.
\<close>

theorem employee_year_coarsening:
  assumes "to_datetime_str pd ''2021-03-01'' = Some (2021, 3, 1)"
      and "to_datetime_str pd ''2021-09-01'' = Some (2021, 9, 1)"
      and "(''2021-03-01'', c1) \<in> set (tl (snd f))"
      and "(''2021-09-01'', c2) \<in> set (tl (snd f))"
      and "(2021, 500) \<in> set df"
      and "\<forall>ye\<in>set df. fst ye = 2021 \<longrightarrow> snd ye = 500"
  shows "(Some (2021, 3, 1), c1 @ [PyInt 500]) \<in> set (snd (employee_merge pd (Undated f) df)) \<and>
         (Some (2021, 9, 1), c2 @ [PyInt 500]) \<in> set (snd (employee_merge pd (Undated f) df)) \<and>
         (\<forall>r\<in>set (snd (employee_merge pd (Undated f) df)).
            year_of (fst r) = 2021 \<longrightarrow> last (snd r) = PyInt 500) \<and>
         fst (employee_merge pd (Undated f) df) = fst f @ [''Employees'']"
proof (intro conjI ballI impI)
  show "(Some (2021, 3, 1), c1 @ [PyInt 500]) \<in> set (snd (employee_merge pd (Undated f) df))"
    by (rule employee_merge_row[OF assms(3) assms(1) assms(5)])
  show "(Some (2021, 9, 1), c2 @ [PyInt 500]) \<in> set (snd (employee_merge pd (Undated f) df))"
    by (rule employee_merge_row[OF assms(4) assms(2) assms(5)])
  show "fst (employee_merge pd (Undated f) df) = fst f @ [''Employees'']"
    by (simp add: employee_merge_def Let_def to_datetime_def)
next
  fix r
  assume "r \<in> set (snd (employee_merge pd (Undated f) df))" and "year_of (fst r) = 2021"
  then show "last (snd r) = PyInt 500"
    by (rule employee_merge_year[OF _ _ assms(5) assms(6)])
qed

lemma iso_dates_2021:
  "to_datetime_str decimal_pandas ''2021-03-01'' = Some (2021, 3, 1)"
  "to_datetime_str decimal_pandas ''2021-09-01'' = Some (2021, 9, 1)"
  by (simp_all add: decimal_pandas_def parse_iso_date_def days_in_month_def date_shape_def
      digits_value_def digit_value_def is_digit_def Let_def)

theorem employee_year_coarsening_witness:
  "(Some (2021, 3, 1), [Num (100, 0)] @ [PyInt 500])
     \<in> set (snd (employee_merge decimal_pandas
          (Undated ([''financials_Revenue''],
                    [(''2020-12-01'', [Num (90, 0)]), (''2021-03-01'', [Num (100, 0)]),
                     (''2021-09-01'', [Num (110, 0)])]))
          [(2021, 500)])) \<and>
   (Some (2021, 9, 1), [Num (110, 0)] @ [PyInt 500])
     \<in> set (snd (employee_merge decimal_pandas
          (Undated ([''financials_Revenue''],
                    [(''2020-12-01'', [Num (90, 0)]), (''2021-03-01'', [Num (100, 0)]),
                     (''2021-09-01'', [Num (110, 0)])]))
          [(2021, 500)]))"
proof -
  let ?f = "([''financials_Revenue''],
             [(''2020-12-01'', [Num (90, 0)]), (''2021-03-01'', [Num (100, 0)]),
              (''2021-09-01'', [Num (110, 0)])]) :: (string, decimal) frame"
  have r1: "(''2021-03-01'', [Num (100, 0)]) \<in> set (tl (snd ?f))"
    and r2: "(''2021-09-01'', [Num (110, 0)]) \<in> set (tl (snd ?f))"
    and e1: "(2021, 500) \<in> set [(2021 :: int, 500 :: int)]"
    and e2: "\<forall>ye\<in>set [(2021 :: int, 500 :: int)]. fst ye = 2021 \<longrightarrow> snd ye = 500"
    by simp_all
  note inst = employee_year_coarsening[OF iso_dates_2021(1) iso_dates_2021(2) r1 r2 e1 e2]
  show ?thesis
    by (rule conjI[OF inst[THEN conjunct1] inst[THEN conjunct2, THEN conjunct1]])
qed

lemma merge_key_dates:
  "r \<in> set (merge_key a b k) \<Longrightarrow> fst r = k"
  by (auto simp: merge_key_def Let_def split: if_splits)

lemma filter_key_empty:
  "filter (\<lambda>r. fst r = k) (snd f) = [] \<longleftrightarrow> k \<notin> set (frame_dates f)"
proof
  assume "filter (\<lambda>r. fst r = k) (snd f) = []"
  then have "\<forall>x\<in>set (snd f). fst x \<noteq> k"
    by (simp add: filter_empty_conv)
  then show "k \<notin> set (frame_dates f)"
    unfolding frame_dates_def by force
next
  assume "k \<notin> set (frame_dates f)"
  then have "\<forall>x\<in>set (snd f). fst x \<noteq> k"
    unfolding frame_dates_def by force
  then show "filter (\<lambda>r. fst r = k) (snd f) = []"
    by (simp add: filter_empty_conv)
qed

lemma merge_key_empty:
  "merge_key a b k = [] \<longleftrightarrow> k \<notin> set (frame_dates a) \<and> k \<notin> set (frame_dates b)"
proof (cases "filter (\<lambda>r. fst r = k) (snd a)")
  case Nil
  then show ?thesis
    using filter_key_empty[of k a] filter_key_empty[of k b]
    by (simp add: merge_key_def Let_def)
next
  case ca: (Cons x xs)
  show ?thesis
  proof (cases "filter (\<lambda>r. fst r = k) (snd b)")
    case Nil
    then show ?thesis
      using ca filter_key_empty[of k a] filter_key_empty[of k b]
      by (simp add: merge_key_def Let_def)
  next
    case (Cons y ys)
    then show ?thesis
      using ca filter_key_empty[of k a] filter_key_empty[of k b]
      by (simp add: merge_key_def Let_def)
  qed
qed

lemma merge_outer_rows:
  "set (snd (merge_outer a b)) =
     (\<Union>k\<in>set (frame_dates a) \<union> set (frame_dates b). set (merge_key a b k))"
  by (simp add: merge_outer_def)

lemma merge_outer_dates:
  "set (frame_dates (merge_outer a b)) = set (frame_dates a) \<union> set (frame_dates b)"
proof
  show "set (frame_dates (merge_outer a b)) \<subseteq> set (frame_dates a) \<union> set (frame_dates b)"
    unfolding frame_dates_def[of "merge_outer a b"] set_map merge_outer_rows
    using merge_key_dates by fastforce
  show "set (frame_dates a) \<union> set (frame_dates b) \<subseteq> set (frame_dates (merge_outer a b))"
  proof
    fix k
    assume k: "k \<in> set (frame_dates a) \<union> set (frame_dates b)"
    then have "merge_key a b k \<noteq> []"
      using merge_key_empty[of a b k] by auto
    then obtain r where r: "r \<in> set (merge_key a b k)"
      by (cases "merge_key a b k") auto
    then have "r \<in> set (snd (merge_outer a b))"
      unfolding merge_outer_rows using k by blast
    moreover have "fst r = k"
      using r by (rule merge_key_dates)
    ultimately show "k \<in> set (frame_dates (merge_outer a b))"
      unfolding frame_dates_def by force
  qed
qed

lemma merge_outer_left_only:
  assumes "(k, ca) \<in> set (snd a)" and "k \<notin> set (frame_dates b)"
  shows "(k, ca @ replicate (length (fst b)) NaN) \<in> set (snd (merge_outer a b))"
proof -
  have fb: "filter (\<lambda>r. fst r = k) (snd b) = []"
    using assms(2) by (simp add: filter_key_empty)
  have "(k, ca @ replicate (length (fst b)) NaN) \<in> set (merge_key a b k)"
    using assms(1) by (force simp: merge_key_def Let_def fb)
  moreover have "k \<in> set (frame_dates a)"
    using assms(1) by (force simp: frame_dates_def)
  ultimately show ?thesis
    unfolding merge_outer_rows by blast
qed

lemma merge_outer_left_only_rows:
  assumes "r \<in> set (snd (merge_outer a b))" and "fst r \<notin> set (frame_dates b)"
  shows "\<exists>ca. (fst r, ca) \<in> set (snd a) \<and> snd r = ca @ replicate (length (fst b)) NaN"
proof -
  obtain k where r: "r \<in> set (merge_key a b k)"
    using assms(1) unfolding merge_outer_rows by blast
  have k: "fst r = k"
    using r by (rule merge_key_dates)
  have fb: "filter (\<lambda>r. fst r = k) (snd b) = []"
    using assms(2) k by (simp add: filter_key_empty)
  obtain ca where "(k, ca) \<in> set (snd a)" and "r = (k, ca @ replicate (length (fst b)) NaN)"
    using r by (auto simp: merge_key_def Let_def fb)
  then show ?thesis
    using k by auto
qed

lemma merge_outer_both:
  assumes "(k, ca) \<in> set (snd a)" and "(k, cb) \<in> set (snd b)"
  shows "(k, ca @ cb) \<in> set (snd (merge_outer a b))"
proof -
  have a: "(k, ca) \<in> set (filter (\<lambda>r. fst r = k) (snd a))"
    and b: "(k, cb) \<in> set (filter (\<lambda>r. fst r = k) (snd b))"
    using assms by simp_all
  have na: "filter (\<lambda>r. fst r = k) (snd a) \<noteq> []" and nb: "filter (\<lambda>r. fst r = k) (snd b) \<noteq> []"
    using a b by (metis empty_iff empty_set)+
  have "(k, ca @ cb) \<in> set (merge_key a b k)"
    unfolding merge_key_def Let_def using a b na nb
    by (force simp del: set_filter)
  moreover have "k \<in> set (frame_dates a)"
    using assms(1) by (force simp: frame_dates_def)
  ultimately show ?thesis
    unfolding merge_outer_rows by blast
qed

lemma final_format_rows:
  "set (snd (final_format pd (Undated f)))
     = (\<lambda>r. (to_datetime_str pd (fst r), map (final_clean_cell pd) (snd r))) ` set (snd f)"
  by (simp add: final_format_def Let_def to_datetime_def final_clean_column_def image_image)

lemma final_format_rows_dated:
  "set (snd (final_format pd (Dated f)))
     = (\<lambda>r. (fst r, map (final_clean_cell pd) (snd r))) ` set (snd f)"
  by (simp add: final_format_def Let_def to_datetime_def final_clean_column_def image_image)

lemma to_datetime_tl:
  "tl (snd (to_datetime pd (Undated f)))
     = map (\<lambda>r. (to_datetime_str pd (fst r), snd r)) (tl (snd f))"
  by (simp add: to_datetime_def map_tl)

lemma employee_merge_keeps:
  assumes "(d, cells) \<in> set (tl (snd f))"
  shows "\<exists>c. (to_datetime_str pd d, cells @ [c]) \<in> set (snd (employee_merge pd (Undated f) df))"
proof -
  let ?r = "(to_datetime_str pd d, cells)"
  have a: "?r \<in> set (tl (snd (to_datetime pd (Undated f))))"
    unfolding to_datetime_tl using assms by force
  show ?thesis
  proof (cases "filter (\<lambda>ye. fst ye = year_of (fst ?r)) df = []")
    case True
    then have "(fst ?r, snd ?r @ [NaN]) \<in> set (snd (employee_merge pd (Undated f) df))"
      unfolding employee_merge_rows using a by (force simp del: set_filter)
    then show ?thesis
      by auto
  next
    case False
    then obtain ye where ye: "ye \<in> set (filter (\<lambda>ye. fst ye = year_of (fst ?r)) df)"
      by (metis list.set_intros(1) neq_Nil_conv)
    with False have "(fst ?r, snd ?r @ [PyInt (snd ye)])
        \<in> set (snd (employee_merge pd (Undated f) df))"
      unfolding employee_merge_rows using a by (force simp del: set_filter)
    then show ?thesis
      by auto
  qed
qed

lemma employee_merge_from:
  assumes "r \<in> set (snd (employee_merge pd (Undated f) df))"
  shows "\<exists>d cells c. (d, cells) \<in> set (tl (snd f)) \<and> r = (to_datetime_str pd d, cells @ [c])"
proof -
  from assms obtain r0 where r0: "r0 \<in> set (tl (snd (to_datetime pd (Undated f))))"
    and r: "r \<in> (if filter (\<lambda>ye. fst ye = year_of (fst r0)) df = [] then {(fst r0, snd r0 @ [NaN])}
            else (\<lambda>ye. (fst r0, snd r0 @ [PyInt (snd ye)])) `
                   set (filter (\<lambda>ye. fst ye = year_of (fst r0)) df))"
    unfolding employee_merge_rows by blast
  from r0 obtain d cells where dc: "(d, cells) \<in> set (tl (snd f))"
    and e: "r0 = (to_datetime_str pd d, cells)"
    unfolding to_datetime_tl by auto
  from r obtain c where "r = (fst r0, snd r0 @ [c])"
    by (auto split: if_splits)
  with dc e show ?thesis
    by auto
qed

lemma merge_outer_head:
  assumes "filter (\<lambda>r. fst r = d1) (snd a) = [(d1, ca)]"
      and "d1 \<notin> set (frame_dates b)"
      and "\<forall>k\<in>set (frame_dates a) \<union> set (frame_dates b). d1 \<le> k"
  shows "hd (snd (merge_outer a b)) = (d1, ca @ replicate (length (fst b)) NaN) \<and>
         d1 \<notin> fst ` set (tl (snd (merge_outer a b)))"
proof -
  let ?ks = "sort (remdups (frame_dates a @ frame_dates b))"
  have "(d1, ca) \<in> set (filter (\<lambda>r. fst r = d1) (snd a))"
    using assms(1) by simp
  then have ina: "d1 \<in> set (frame_dates a)"
    by (force simp: frame_dates_def)
  have s: "sorted ?ks" and di: "distinct ?ks"
    and se: "set ?ks = set (frame_dates a) \<union> set (frame_dates b)"
    by simp_all
  from ina se obtain k rest where ks: "?ks = k # rest"
    by (cases ?ks) auto
  have "k \<in> set ?ks"
    using ks by simp
  then have le1: "d1 \<le> k"
    using assms(3) se by blast
  have "d1 \<in> set (k # rest)"
    using ina se ks by auto
  then have "k \<le> d1"
    using s ks by auto
  with le1 have k: "k = d1"
    by simp
  have nr: "d1 \<notin> set rest"
    using di ks k by auto
  have fb: "filter (\<lambda>r. fst r = d1) (snd b) = []"
    using assms(2) by (simp add: filter_key_empty)
  have mk: "merge_key a b d1 = [(d1, ca @ replicate (length (fst b)) NaN)]"
    by (simp add: merge_key_def Let_def fb assms(1))
  have rows: "snd (merge_outer a b)
      = (d1, ca @ replicate (length (fst b)) NaN) # concat (map (merge_key a b) rest)"
    using ks k mk by (simp add: merge_outer_def)
  have "fst r \<in> set rest" if "r \<in> set (concat (map (merge_key a b) rest))" for r
    using that merge_key_dates by fastforce
  with nr have "d1 \<notin> fst ` set (concat (map (merge_key a b) rest))"
    by blast
  with rows show ?thesis
    by simp
qed

lemma process_chart_employee_count:
  assumes "to_lower chart_title = ''other metrics''"
      and "t_click (tools self) chart_title False w = (Inr u1, w1)"
      and "t_click (tools self) ''Employee Count'' True w1 = (Inr u2, w2)"
      and "extract_employee_table_to_df (driver self) w2 = (Inr df, w3)"
  shows "process_chart self pd (Some c) chart_title w
           = (Inr (Some (if df = [] then c else Dated (employee_merge pd c df))), w3)"
  using assms by (simp add: process_chart_def io_bind_apply io_return_apply)

lemma process_chart_panel:
  assumes "to_lower chart_title \<noteq> ''other metrics''"
      and "t_click (tools self) chart_title False w = (Inr u1, w1)"
      and "t_quartely (tools self) w1 = (Inr u2, w2)"
      and "get_chart self w2 = (Inr df, w3)"
      and "panel_frame pd chart_title df = Inr b"
  shows "process_chart self pd (Some (Undated a)) chart_title w
           = (Inr (Some (Undated (merge_outer a b))), w3)"
  using assms
  by (simp add: process_chart_def io_bind_apply io_return_apply io_lift_apply merge_panel_def)

lemma collect_stock_info_saves:
  assumes "t_search (tools self) stock_name w = (Inr u, w1)"
      and "chart_loop self pd (charts self) None w1 = (Inr (Some c), w2)"
  shows "collect_stock_info self pd stock_name w = (Inr (Some (final_format pd c)), w2)"
  using assms by (simp add: collect_stock_info_def io_bind_apply io_return_apply)

text \<open>
  C8, as the claim states it, fails for the table that is saved. With the grid of
  \<^verbatim>\<open>Financials\<close> showing 2023-01-01 and 2023-04-01, the grids of the other panels showing
  2023-04-01 and 2023-07-01, and an employee table with the figure of 2023, the table after
  the second panel is the outer join of the two frames, with the three dates; the table
  that \<^verbatim>\<open>collect_stock_info\<close> saves has the rows of 2023-04-01 and 2023-07-01 only, since the
  Employee Count step drops the first row (\<^verbatim>\<open>iloc[1:]\<close>, line 189).
\<close>

theorem first_date_lost_counterexample:
  "frame_dates revenue_panel = [''2023-01-01'', ''2023-04-01''] \<and>
   frame_dates cash_panel = [''2023-04-01'', ''2023-07-01''] \<and>
   fst (chart_loop (Collect (tab_driver two_panel_pages)) decimal_pandas
          [''Financials'', ''Balance Sheet''] None start)
     = Inr (Some (Undated (merge_outer revenue_panel cash_panel))) \<and>
   frame_dates (merge_outer revenue_panel cash_panel)
     = [''2023-01-01'', ''2023-04-01'', ''2023-07-01''] \<and>
   fst (collect_stock_info (Collect (tab_driver two_panel_pages)) decimal_pandas ''Nvidia'' start)
     = Inr (Some
        ([''financials_Revenue'', ''balance_sheet_Cash'', ''cash_flow_statement_Cash'',
          ''key_financial_ratios_Cash'', ''Employees''],
         [(Some (2023, 4, 1),
           [Num (110, 0), Num (7, 0), Num (7, 0), Num (7, 0), Num (500, 0)]),
          (Some (2023, 7, 1),
           [Num (0, 0), Num (8, 0), Num (8, 0), Num (8, 0), Num (500, 0)])]))"
  by code_simp

text \<open>
  C8, amended. When a panel \<open>b\<close> with the dates \<open>d2, d3\<close> is merged into the table \<open>a\<close> of a
  panel with the dates \<open>d1, d2\<close> (lines 226 to 230), the merge is the outer join: its dates
  are exactly \<open>d1, d2, d3\<close>; a row of \<open>d1\<close> has the cells of \<open>a\<close> followed by a missing cell
  for every column of \<open>b\<close>, and no row of \<open>d1\<close> has any other form; a row of \<open>d2\<close> joins the
  cells of a row of \<open>a\<close> with those of a row of \<open>b\<close>. When the Employee Count step leaves
  this table as it is, the saved table has these rows with every cell cleaned, the missing
  cells being 0. When the step merges an employee table \<open>df\<close> into it, the saved table
  consists of the rows after the first, cleaned, each with an \<^verbatim>\<open>Employees\<close> cell; so when \<open>d1\<close>
  is the least of the three dates and \<open>a\<close> has one row of \<open>d1\<close>, that row is the first of the
  merge and no row after it has the date \<open>d1\<close>. Of pandas it is assumed that it reads the
  printed missing value as missing.
\<close>

theorem outer_join_completeness:
  assumes "set (frame_dates a) = {d1, d2}" and "set (frame_dates b) = {d2, d3}"
      and "d1 \<noteq> d2" and "d1 \<noteq> d3"
      and "to_numeric_str pd ''nan'' = ParsedNaN"
  shows
    "merge_panel (Some (Undated a)) b = Inr (Undated (merge_outer a b)) \<and>
     set (frame_dates (merge_outer a b)) = {d1, d2, d3} \<and>
     length (fst (merge_outer a b)) = length (fst a) + length (fst b) \<and>
     (\<forall>ca. (d1, ca) \<in> set (snd a) \<longrightarrow>
        (d1, ca @ replicate (length (fst b)) NaN) \<in> set (snd (merge_outer a b)) \<and>
        (to_datetime_str pd d1,
         map (final_clean_cell pd) ca @ replicate (length (fst b)) (Num (num_of_int pd 0)))
          \<in> set (snd (final_format pd (Undated (merge_outer a b))))) \<and>
     (\<forall>r\<in>set (snd (merge_outer a b)). fst r = d1 \<longrightarrow>
        (\<exists>ca. (d1, ca) \<in> set (snd a) \<and> snd r = ca @ replicate (length (fst b)) NaN)) \<and>
     (\<forall>ca cb. (d2, ca) \<in> set (snd a) \<and> (d2, cb) \<in> set (snd b) \<longrightarrow>
        (d2, ca @ cb) \<in> set (snd (merge_outer a b)) \<and>
        (to_datetime_str pd d2, map (final_clean_cell pd) (ca @ cb))
          \<in> set (snd (final_format pd (Undated (merge_outer a b))))) \<and>
     (\<forall>df d cells. (d, cells) \<in> set (tl (snd (merge_outer a b))) \<longrightarrow>
        (\<exists>c. (to_datetime_str pd d, map (final_clean_cell pd) (cells @ [c]))
           \<in> set (snd (final_format pd
                  (Dated (employee_merge pd (Undated (merge_outer a b)) df)))))) \<and>
     (\<forall>df. \<forall>r\<in>set (snd (final_format pd
                  (Dated (employee_merge pd (Undated (merge_outer a b)) df)))).
        \<exists>d cells c. (d, cells) \<in> set (tl (snd (merge_outer a b))) \<and>
          r = (to_datetime_str pd d, map (final_clean_cell pd) (cells @ [c]))) \<and>
     (\<forall>ca. d1 < d2 \<and> d1 < d3 \<and> filter (\<lambda>r. fst r = d1) (snd a) = [(d1, ca)] \<longrightarrow>
        hd (snd (merge_outer a b)) = (d1, ca @ replicate (length (fst b)) NaN) \<and>
        d1 \<notin> fst ` set (tl (snd (merge_outer a b))))"
proof -
  have nb: "d1 \<notin> set (frame_dates b)"
    using assms(2,3,4) by simp
  have m: "merge_panel (Some (Undated a)) b = Inr (Undated (merge_outer a b))"
    by (simp add: merge_panel_def)
  have ds: "set (frame_dates (merge_outer a b)) = {d1, d2, d3}"
    using assms(1,2) by (auto simp: merge_outer_dates)
  have cols: "length (fst (merge_outer a b)) = length (fst a) + length (fst b)"
    by (simp add: merge_outer_def merge_columns_def)
  have left: "(d1, ca @ replicate (length (fst b)) NaN) \<in> set (snd (merge_outer a b)) \<and>
        (to_datetime_str pd d1,
         map (final_clean_cell pd) ca @ replicate (length (fst b)) (Num (num_of_int pd 0)))
          \<in> set (snd (final_format pd (Undated (merge_outer a b))))"
    if "(d1, ca) \<in> set (snd a)" for ca
  proof -
    have r: "(d1, ca @ replicate (length (fst b)) NaN) \<in> set (snd (merge_outer a b))"
      by (rule merge_outer_left_only[OF that nb])
    have "(to_datetime_str pd (fst (d1, ca @ replicate (length (fst b)) NaN)),
           map (final_clean_cell pd) (snd (d1, ca @ replicate (length (fst b)) NaN)))
            \<in> set (snd (final_format pd (Undated (merge_outer a b))))"
      unfolding final_format_rows using r by (rule imageI)
    then show ?thesis
      using r by (simp add: final_clean_cell_NaN[OF assms(5)])
  qed
  have only: "\<exists>ca. (d1, ca) \<in> set (snd a) \<and> snd r = ca @ replicate (length (fst b)) NaN"
    if "r \<in> set (snd (merge_outer a b))" and "fst r = d1" for r
    using merge_outer_left_only_rows[OF that(1)] nb that(2) by auto
  have both: "(d2, ca @ cb) \<in> set (snd (merge_outer a b)) \<and>
        (to_datetime_str pd d2, map (final_clean_cell pd) (ca @ cb))
          \<in> set (snd (final_format pd (Undated (merge_outer a b))))"
    if "(d2, ca) \<in> set (snd a) \<and> (d2, cb) \<in> set (snd b)" for ca cb
  proof -
    have r: "(d2, ca @ cb) \<in> set (snd (merge_outer a b))"
      using that merge_outer_both by blast
    have "(to_datetime_str pd (fst (d2, ca @ cb)), map (final_clean_cell pd) (snd (d2, ca @ cb)))
            \<in> set (snd (final_format pd (Undated (merge_outer a b))))"
      unfolding final_format_rows using r by (rule imageI)
    then show ?thesis
      using r by simp
  qed
  have keeps: "\<exists>c. (to_datetime_str pd d, map (final_clean_cell pd) (cells @ [c]))
           \<in> set (snd (final_format pd
                  (Dated (employee_merge pd (Undated (merge_outer a b)) df))))"
    if "(d, cells) \<in> set (tl (snd (merge_outer a b)))" for df d cells
  proof -
    from employee_merge_keeps[OF that, of pd df] obtain c where
      c: "(to_datetime_str pd d, cells @ [c])
            \<in> set (snd (employee_merge pd (Undated (merge_outer a b)) df))"
      by blast
    have "(fst (to_datetime_str pd d, cells @ [c]),
           map (final_clean_cell pd) (snd (to_datetime_str pd d, cells @ [c])))
            \<in> set (snd (final_format pd
                  (Dated (employee_merge pd (Undated (merge_outer a b)) df))))"
      unfolding final_format_rows_dated using c by (rule imageI)
    then show ?thesis
      by (intro exI[of _ c]) simp
  qed
  have from_tl: "\<exists>d cells c. (d, cells) \<in> set (tl (snd (merge_outer a b))) \<and>
          r = (to_datetime_str pd d, map (final_clean_cell pd) (cells @ [c]))"
    if "r \<in> set (snd (final_format pd
                  (Dated (employee_merge pd (Undated (merge_outer a b)) df))))" for df r
  proof -
    from that obtain r1 where
      r1: "r1 \<in> set (snd (employee_merge pd (Undated (merge_outer a b)) df))"
      and r: "r = (fst r1, map (final_clean_cell pd) (snd r1))"
      unfolding final_format_rows_dated by blast
    from employee_merge_from[OF r1] obtain d cells c where
      "(d, cells) \<in> set (tl (snd (merge_outer a b)))"
      and "r1 = (to_datetime_str pd d, cells @ [c])"
      by blast
    with r show ?thesis
      by auto
  qed
  have first: "hd (snd (merge_outer a b)) = (d1, ca @ replicate (length (fst b)) NaN) \<and>
        d1 \<notin> fst ` set (tl (snd (merge_outer a b)))"
    if "d1 < d2 \<and> d1 < d3 \<and> filter (\<lambda>r. fst r = d1) (snd a) = [(d1, ca)]" for ca
  proof -
    have "\<forall>k\<in>set (frame_dates a) \<union> set (frame_dates b). d1 \<le> k"
      using that assms(1,2) by auto
    with that nb show ?thesis
      by (intro merge_outer_head) simp_all
  qed
  show ?thesis
    apply (intro conjI allI impI ballI)
    subgoal by (rule m)
    subgoal by (rule ds)
    subgoal by (rule cols)
    subgoal by (erule left[THEN conjunct1])
    subgoal by (erule left[THEN conjunct2])
    subgoal by (erule (1) only)
    subgoal by (erule both[THEN conjunct1])
    subgoal by (erule both[THEN conjunct2])
    subgoal by (erule keeps)
    subgoal by (erule from_tl)
    subgoal by (erule first[THEN conjunct1])
    subgoal by (erule first[THEN conjunct2])
    done
qed

lemma outer_join_example:
  "merge_outer revenue_panel cash_panel
   = ([''financials_Revenue'', ''balance_sheet_Cash''],
      [(''2023-01-01'', [Num (100, 0), NaN]),
       (''2023-04-01'', [Num (110, 0), Num (7, 0)]),
       (''2023-07-01'', [NaN, Num (8, 0)])])"
  by code_simp

theorem outer_join_completeness_witness:
  "set (frame_dates (merge_outer revenue_panel cash_panel))
     = {''2023-01-01'', ''2023-04-01'', ''2023-07-01''} \<and>
   (''2023-01-01'', [Num (100, 0)] @ replicate (length (fst cash_panel)) NaN)
     \<in> set (snd (merge_outer revenue_panel cash_panel)) \<and>
   (''2023-04-01'', [Num (110, 0)] @ [Num (7, 0)])
     \<in> set (snd (merge_outer revenue_panel cash_panel)) \<and>
   (\<exists>c. (to_datetime_str decimal_pandas ''2023-04-01'',
          map (final_clean_cell decimal_pandas) ([Num (110, 0), Num (7, 0)] @ [c]))
     \<in> set (snd (final_format decimal_pandas
          (Dated (employee_merge decimal_pandas
             (Undated (merge_outer revenue_panel cash_panel)) [(2023, 500)]))))) \<and>
   hd (snd (merge_outer revenue_panel cash_panel))
     = (''2023-01-01'', [Num (100, 0)] @ replicate (length (fst cash_panel)) NaN) \<and>
   ''2023-01-01'' \<notin> fst ` set (tl (snd (merge_outer revenue_panel cash_panel)))"
proof -
  have da: "set (frame_dates revenue_panel) = {''2023-01-01'', ''2023-04-01''}"
    and db: "set (frame_dates cash_panel) = {''2023-04-01'', ''2023-07-01''}"
    by (simp_all add: frame_dates_def revenue_panel_def cash_panel_def)
  have ne: "''2023-01-01'' \<noteq> ''2023-04-01''" "''2023-01-01'' \<noteq> ''2023-07-01''"
    by simp_all
  have nan: "to_numeric_str decimal_pandas ''nan'' = ParsedNaN"
    by (simp add: decimal_pandas_def parse_decimal_def)
  have ma: "(''2023-01-01'', [Num (100, 0)]) \<in> set (snd revenue_panel)"
    and mb: "(''2023-04-01'', [Num (110, 0)]) \<in> set (snd revenue_panel) \<and>
             (''2023-04-01'', [Num (7, 0)]) \<in> set (snd cash_panel)"
    by (simp_all add: revenue_panel_def cash_panel_def)
  have mt: "(''2023-04-01'', [Num (110, 0), Num (7, 0)])
              \<in> set (tl (snd (merge_outer revenue_panel cash_panel)))"
    by (simp add: outer_join_example)
  have lt: "''2023-01-01'' < ''2023-04-01''" "''2023-01-01'' < ''2023-07-01''"
    by code_simp+
  have fa: "filter (\<lambda>r. fst r = ''2023-01-01'') (snd revenue_panel)
              = [(''2023-01-01'', [Num (100, 0)])]"
    by (simp add: revenue_panel_def)
  note inst = outer_join_completeness[OF da db ne(1) ne(2) nan]
  note dates = inst[THEN conjunct2, THEN conjunct1]
  note left = inst[THEN conjunct2, THEN conjunct2, THEN conjunct2, THEN conjunct1,
                   rule_format, OF ma, THEN conjunct1]
  note rest = conjunct2[OF conjunct2[OF conjunct2[OF conjunct2[OF conjunct2]]]]
  note both = inst[THEN rest, THEN conjunct1, rule_format, OF mb, THEN conjunct1]
  note keeps = inst[THEN rest, THEN conjunct2, THEN conjunct1, rule_format, OF mt,
                    of "[(2023, 500)]"]
  note first = inst[THEN rest, THEN conjunct2, THEN conjunct2, THEN conjunct2, rule_format,
                    OF conjI[OF lt(1) conjI[OF lt(2) fa]]]
  show ?thesis
    by (rule conjI[OF dates conjI[OF left conjI[OF both conjI[OF keeps first]]]])
qed

end
